theory Spec2Isabelle
  imports Main
begin

section \<open>Values, errors and dictionaries\<close>

text \<open>
  Modelled from the spec: the classes \<open>Variable\<close> and \<open>StringFormat\<close> of
  \<open>chalice.deploy.planner\<close> and the enum \<open>Placeholder\<close> of \<open>chalice.deploy.models\<close>,
  which are not among the sources. They are the specification's \<open>VariableRef(name)\<close>,
  \<open>TemplateString(template, variable_names)\<close> and \<open>UnresolvedPlaceholder\<close>; a
  placeholder carries the name of its enum member. The other constructors of \<open>pval\<close>
  are the Python values the executor of \<^verbatim>\<open>chalice/deploy/executor.py\<close> inspects:
  \<open>None\<close>, booleans, integers, strings, \<open>bytes\<close>, lists, and dictionaries with string
  keys, in insertion order as in Python 3.
\<close>

datatype pval =
    PyNone
  | PyBool bool
  | PyInt int
  | PyStr string
  | PyBytes string
  | PyList "pval list"
  | PyDict "(string \<times> pval) list"
  | Variable string
  | StringFormat string "string list"
  | Placeholder string

type_synonym pydict = "(string \<times> pval) list"

text \<open>
  The exceptions the executor raises or lets through. \<open>UnresolvedValueError\<close> has the
  three mutable fields \<open>key\<close>, \<open>value\<close>, \<open>method_name\<close> of the class at the end of the
  source file. \<open>KeyError\<close> carries the missing key, \<open>RuntimeError\<close> and
  \<open>ValueError\<close> their message. \<open>ProviderError\<close> stands for whatever the API client
  raises.
\<close>

datatype error =
    KeyError pval
  | UnresolvedValueError string pval string
  | RuntimeError string
  | ValueError string
  | IndexError
  | TypeError
  | AttributeError
  | ProviderError string

type_synonym store = "string \<rightharpoonup> pval"

text \<open>\<open>d[k]\<close>, \<open>d[k] = v\<close> and \<open>d.update(e)\<close> on an insertion-ordered dictionary.\<close>

fun dict_get :: "pydict \<Rightarrow> string \<Rightarrow> pval option" where
  "dict_get [] k = None"
| "dict_get ((k', v) # d) k = (if k' = k then Some v else dict_get d k)"

fun dict_set :: "pydict \<Rightarrow> string \<Rightarrow> pval \<Rightarrow> pydict" where
  "dict_set [] k v = [(k, v)]"
| "dict_set ((k', v') # d) k v =
     (if k' = k then (k', v) # d else (k', v') # dict_set d k v)"

fun dict_update :: "pydict \<Rightarrow> pydict \<Rightarrow> pydict" where
  "dict_update d [] = d"
| "dict_update d ((k, v) # e) = dict_update (dict_set d k v) e"

text \<open>\<open>variables[name]\<close>: a missing name raises \<open>KeyError(name)\<close>.\<close>

definition lookup_var :: "store \<Rightarrow> string \<Rightarrow> error + pval" where
  "lookup_var vars n = (case vars n of None \<Rightarrow> Inl (KeyError (PyStr n)) | Some v \<Rightarrow> Inr v)"

section \<open>VariableResolver\<close>

text \<open>
  \<open>str.format\<close> belongs to the Python library, not to the repository: it is a parameter
  of the resolver, from the template and the keyword dictionary to a string or an
  exception.
\<close>

type_synonym formatter = "string \<Rightarrow> pydict \<Rightarrow> error + string"

text \<open>The dictionary comprehension \<open>{k: variables[k] for k in value.variables}\<close>.\<close>

fun format_kwargs :: "string list \<Rightarrow> store \<Rightarrow> pydict \<Rightarrow> error + pydict" where
  "format_kwargs [] vars v = Inr v"
| "format_kwargs (k # ks) vars v =
     (case lookup_var vars k of
        Inl e \<Rightarrow> Inl e
      | Inr x \<Rightarrow> format_kwargs ks vars (dict_set v k x))"

text \<open>\<open>except UnresolvedValueError as e: e.key = k; raise\<close>.\<close>

fun attach_key :: "string \<Rightarrow> error \<Rightarrow> error" where
  "attach_key k (UnresolvedValueError key value method_name) =
     UnresolvedValueError k value method_name"
| "attach_key k e = e"

function resolve_variables :: "formatter \<Rightarrow> pval \<Rightarrow> store \<Rightarrow> error + pval"
  and resolve_items :: "formatter \<Rightarrow> pydict \<Rightarrow> store \<Rightarrow> pydict \<Rightarrow> error + pydict"
  and resolve_elems :: "formatter \<Rightarrow> pval list \<Rightarrow> store \<Rightarrow> pval list \<Rightarrow> error + pval list"
where
  "resolve_variables fmt (Variable name) vars = lookup_var vars name"
| "resolve_variables fmt (StringFormat template names) vars =
     (case format_kwargs names vars [] of
        Inl e \<Rightarrow> Inl e
      | Inr v \<Rightarrow> (case fmt template v of Inl e \<Rightarrow> Inl e | Inr s \<Rightarrow> Inr (PyStr s)))"
| "resolve_variables fmt (Placeholder p) vars =
     Inl (UnresolvedValueError [] (Placeholder p) [])"
| "resolve_variables fmt (PyDict d) vars =
     (case resolve_items fmt d vars [] of Inl e \<Rightarrow> Inl e | Inr final \<Rightarrow> Inr (PyDict final))"
| "resolve_variables fmt (PyList xs) vars =
     (case resolve_elems fmt xs vars [] of
        Inl e \<Rightarrow> Inl e
      | Inr final_list \<Rightarrow> Inr (PyList final_list))"
| "resolve_variables fmt PyNone vars = Inr PyNone"
| "resolve_variables fmt (PyBool b) vars = Inr (PyBool b)"
| "resolve_variables fmt (PyInt i) vars = Inr (PyInt i)"
| "resolve_variables fmt (PyStr s) vars = Inr (PyStr s)"
| "resolve_variables fmt (PyBytes b) vars = Inr (PyBytes b)"
| "resolve_items fmt [] vars final = Inr final"
| "resolve_items fmt ((k, v) # d) vars final =
     (case resolve_variables fmt v vars of
        Inl e \<Rightarrow> Inl (attach_key k e)
      | Inr r \<Rightarrow> resolve_items fmt d vars (dict_set final k r))"
| "resolve_elems fmt [] vars final_list = Inr final_list"
| "resolve_elems fmt (v # xs) vars final_list =
     (case resolve_variables fmt v vars of
        Inl e \<Rightarrow> Inl e
      | Inr r \<Rightarrow> resolve_elems fmt xs vars (final_list @ [r]))"
  by pat_completeness auto
termination
  by (relation "measure (\<lambda>x. case x of
        Inl (fmt, v, vars) \<Rightarrow> size v
      | Inr (Inl (fmt, d, vars, final)) \<Rightarrow> size_list (size_prod (\<lambda>_. 0) size) d
      | Inr (Inr (fmt, xs, vars, final_list)) \<Rightarrow> size_list size xs)") auto

section \<open>Strings\<close>

definition ascii_uppercase :: string where
  "ascii_uppercase = ''ABCDEFGHIJKLMNOPQRSTUVWXYZ''"

definition ascii_lowercase :: string where
  "ascii_lowercase = ''abcdefghijklmnopqrstuvwxyz''"

definition digits :: string where
  "digits = ''0123456789''"

text \<open>
  \<open>str.lower\<close> on the ASCII letters, for class names. The lower-cased name is only
  compared with the names of the handlers, which are made of ASCII letters other than
  \<open>k\<close>: no character outside ASCII has one of these letters for its lower case, so the
  comparison comes out as with \<open>str.lower\<close>.
\<close>

definition lower_char :: "char \<Rightarrow> char" where
  "lower_char c =
     (case map_of (zip ascii_uppercase ascii_lowercase) c of Some d \<Rightarrow> d | None \<Rightarrow> c)"

definition lower :: "string \<Rightarrow> string" where
  "lower s = map lower_char s"

text \<open>\<open>s.split(c)\<close> for a one-character separator: never empty, one part more than
  there are separators.\<close>

fun split :: "char \<Rightarrow> string \<Rightarrow> string list" where
  "split c [] = [[]]"
| "split c (x # xs) =
     (if x = c then [] # split c xs
      else (case split c xs of [] \<Rightarrow> [[x]] | p # ps \<Rightarrow> (x # p) # ps))"

section \<open>Executor\<close>

text \<open>
  Modelled from the spec: the instruction classes of \<open>chalice.deploy.models\<close>, which are
  not among the sources. The fields are those the specification lists, under the
  attribute names the executor reads: \<open>APICall(method_name, params, output_var)\<close>,
  \<open>CopyVariable(from_var, to_var)\<close>, \<open>StoreValue(name, value)\<close>,
  \<open>RecordResourceVariable(resource_name, resource_type, name, variable_name)\<close>,
  \<open>RecordResourceValue(resource_name, resource_type, name, value)\<close>,
  \<open>JPSearch(input_var, expression, output_var)\<close> (the specification's \<open>PathQuery\<close>) and
  \<open>BuiltinFunction(function_name, args, output_var)\<close>. \<open>OtherInstruction c\<close> is an
  instance of any other class, named \<open>c\<close>, with no attribute of its own.
\<close>

datatype instruction =
    APICall string pval "string option"
  | CopyVariable string string
  | StoreValue string pval
  | RecordResourceVariable string string string string
  | RecordResourceValue string string string pval
  | JPSearch string string string
  | BuiltinFunction string pval string
  | OtherInstruction string

fun class_name :: "instruction \<Rightarrow> string" where
  "class_name (APICall method_name params output_var) = ''APICall''"
| "class_name (CopyVariable from_var to_var) = ''CopyVariable''"
| "class_name (StoreValue name value) = ''StoreValue''"
| "class_name (RecordResourceVariable resource_name resource_type name variable_name) =
     ''RecordResourceVariable''"
| "class_name (RecordResourceValue resource_name resource_type name value) =
     ''RecordResourceValue''"
| "class_name (JPSearch input_var expression output_var) = ''JPSearch''"
| "class_name (BuiltinFunction function_name args output_var) = ''BuiltinFunction''"
| "class_name (OtherInstruction c) = c"

text \<open>
  What the executor is given from outside: \<open>str.format\<close>, the methods of the API client
  (\<open>getattr(self._client, method_name)\<close> is \<open>None\<close> where the client has no such
  attribute; a method takes the keyword arguments and the client's state and returns a
  result or raises, with the client's new state) and \<open>jmespath.search\<close>.
\<close>

record 'c world =
  format :: formatter
  client_method :: "string \<Rightarrow> (pydict \<Rightarrow> 'c \<Rightarrow> (error + pval) \<times> 'c) option"
  jmespath_search :: "string \<Rightarrow> pval \<Rightarrow> error + pval"

text \<open>
  The state of an \<open>Executor\<close>. The payload dictionaries are shared between the list
  \<open>resource_values\<close> and the dictionary \<open>_resource_value_index\<close>, and are updated in
  place: \<open>objects\<close> holds them, an address is a position in \<open>objects\<close>, and
  \<open>resource_values\<close> and \<open>resource_value_index\<close> hold addresses. \<open>ui\<close> is what has
  been written to the UI, \<open>client\<close> the state behind the API client.
\<close>

record 'c executor =
  client :: 'c
  ui :: "string list"
  variables :: store
  objects :: "pydict list"
  resource_values :: "nat list"
  resource_value_index :: "(pval \<times> nat) list"

text \<open>The list of dictionaries a caller reads from \<open>executor.resource_values\<close>.\<close>

definition deployed_values :: "'c executor \<Rightarrow> pydict list" where
  "deployed_values ex = map (\<lambda>a. objects ex ! a) (resource_values ex)"

definition new_executor :: "'c \<Rightarrow> 'c executor" where
  "new_executor c =
     \<lparr>client = c, ui = [], variables = Map.empty, objects = [], resource_values = [],
      resource_value_index = []\<rparr>"

text \<open>A handler returns the executor's state and the exception it raised, if any.\<close>

type_synonym 'c outcome = "'c executor \<times> error option"

definition ui_write :: "string \<Rightarrow> 'c executor \<Rightarrow> 'c executor" where
  "ui_write msg ex = ex\<lparr>ui := ui ex @ [msg]\<rparr>"

text \<open>\<open>Executor._default_handler\<close>.\<close>

definition default_handler :: "instruction \<Rightarrow> 'c executor \<Rightarrow> 'c outcome" where
  "default_handler instruction ex =
     (ex, Some (RuntimeError
        (''Deployment executor encountered an unknown instruction: ''
         @ class_name instruction)))"

text \<open>\<open>Executor._resolve_variables\<close>: \<open>e.method_name = api_call.method_name\<close>.\<close>

fun attach_method_name :: "string \<Rightarrow> error \<Rightarrow> error" where
  "attach_method_name m (UnresolvedValueError key value method_name) =
     UnresolvedValueError key value m"
| "attach_method_name m e = e"

definition executor_resolve_variables ::
  "formatter \<Rightarrow> string \<Rightarrow> pval \<Rightarrow> store \<Rightarrow> error + pval" where
  "executor_resolve_variables fmt method_name params vars =
     (case resolve_variables fmt params vars of
        Inl e \<Rightarrow> Inl (attach_method_name method_name e)
      | Inr r \<Rightarrow> Inr r)"

text \<open>
  Each handler is typed by its instruction class, as in the source's type comments. An
  object of another class that reaches a handler has none of the attributes the handler
  reads first.
\<close>

fun do_apicall :: "'c world \<Rightarrow> instruction \<Rightarrow> 'c executor \<Rightarrow> 'c outcome" where
  "do_apicall w (APICall method_name params output_var) ex =
     (case executor_resolve_variables (format w) method_name params (variables ex) of
        Inl e \<Rightarrow> (ex, Some e)
      | Inr final_kwargs \<Rightarrow>
          (case client_method w method_name of
             None \<Rightarrow> (ex, Some AttributeError)
           | Some method \<Rightarrow>
               (case final_kwargs of
                  PyDict kwargs \<Rightarrow>
                    (case method kwargs (client ex) of
                       (Inl e, c) \<Rightarrow> (ex\<lparr>client := c\<rparr>, Some e)
                     | (Inr result, c) \<Rightarrow>
                         (case output_var of
                            None \<Rightarrow> (ex\<lparr>client := c\<rparr>, None)
                          | Some ov \<Rightarrow>
                              (ex\<lparr>client := c, variables := (variables ex)(ov \<mapsto> result)\<rparr>,
                               None)))
                | _ \<Rightarrow> (ex, Some TypeError))))"
| "do_apicall w _ ex = (ex, Some AttributeError)"

fun do_copyvariable :: "instruction \<Rightarrow> 'c executor \<Rightarrow> 'c outcome" where
  "do_copyvariable (CopyVariable from_var to_var) ex =
     (case lookup_var (variables ex) from_var of
        Inl e \<Rightarrow> (ex, Some e)
      | Inr v \<Rightarrow> (ex\<lparr>variables := (variables ex)(to_var \<mapsto> v)\<rparr>, None))"
| "do_copyvariable _ ex = (ex, Some AttributeError)"

fun do_storevalue :: "'c world \<Rightarrow> instruction \<Rightarrow> 'c executor \<Rightarrow> 'c outcome" where
  "do_storevalue w (StoreValue name value) ex =
     (case resolve_variables (format w) value (variables ex) of
        Inl e \<Rightarrow> (ex, Some e)
      | Inr result \<Rightarrow> (ex\<lparr>variables := (variables ex)(name \<mapsto> result)\<rparr>, None))"
| "do_storevalue w _ ex = (ex, Some AttributeError)"

text \<open>
  The dictionary display \<open>{'name': ..., 'resource_type': ..., instruction.name: ...}\<close>:
  a later entry with an earlier entry's key replaces its value.
\<close>

definition make_payload :: "string \<Rightarrow> string \<Rightarrow> string \<Rightarrow> pval \<Rightarrow> pydict" where
  "make_payload resource_name resource_type name value =
     dict_set (dict_set (dict_set [] ''name'' (PyStr resource_name))
                 ''resource_type'' (PyStr resource_type)) name value"

text \<open>
  Keys of \<open>_resource_value_index\<close>: lists and dictionaries are unhashable
  (\<open>TypeError\<close>), and \<open>True\<close> and \<open>False\<close> are the keys \<open>1\<close> and \<open>0\<close>.
\<close>

fun hashable :: "pval \<Rightarrow> bool" where
  "hashable (PyList xs) = False"
| "hashable (PyDict d) = False"
| "hashable _ = True"

fun index_key :: "pval \<Rightarrow> pval" where
  "index_key (PyBool b) = PyInt (if b then 1 else 0)"
| "index_key v = v"

definition add_to_deployed_values :: "pydict \<Rightarrow> 'c executor \<Rightarrow> 'c outcome" where
  "add_to_deployed_values payload ex =
     (case dict_get payload ''name'' of
        None \<Rightarrow> (ex, Some (KeyError (PyStr ''name'')))
      | Some key \<Rightarrow>
          if \<not> hashable key then (ex, Some TypeError)
          else (case map_of (resource_value_index ex) (index_key key) of
                  None \<Rightarrow>
                    (ex\<lparr>objects := objects ex @ [payload],
                        resource_value_index :=
                          resource_value_index ex @ [(index_key key, length (objects ex))],
                        resource_values := resource_values ex @ [length (objects ex)]\<rparr>,
                     None)
                | Some a \<Rightarrow>
                    (ex\<lparr>objects := (objects ex)[a := dict_update (objects ex ! a) payload]\<rparr>,
                     None)))"

fun do_recordresourcevariable :: "instruction \<Rightarrow> 'c executor \<Rightarrow> 'c outcome" where
  "do_recordresourcevariable
     (RecordResourceVariable resource_name resource_type name variable_name) ex =
     (case lookup_var (variables ex) variable_name of
        Inl e \<Rightarrow> (ex, Some e)
      | Inr v \<Rightarrow> add_to_deployed_values (make_payload resource_name resource_type name v) ex)"
| "do_recordresourcevariable _ ex = (ex, Some AttributeError)"

fun do_recordresourcevalue :: "instruction \<Rightarrow> 'c executor \<Rightarrow> 'c outcome" where
  "do_recordresourcevalue
     (RecordResourceValue resource_name resource_type name value) ex =
     add_to_deployed_values (make_payload resource_name resource_type name value) ex"
| "do_recordresourcevalue _ ex = (ex, Some AttributeError)"

fun do_jpsearch :: "'c world \<Rightarrow> instruction \<Rightarrow> 'c executor \<Rightarrow> 'c outcome" where
  "do_jpsearch w (JPSearch input_var expression output_var) ex =
     (case lookup_var (variables ex) input_var of
        Inl e \<Rightarrow> (ex, Some e)
      | Inr v \<Rightarrow>
          (case jmespath_search w expression v of
             Inl e \<Rightarrow> (ex, Some e)
           | Inr result \<Rightarrow> (ex\<lparr>variables := (variables ex)(output_var \<mapsto> result)\<rparr>, None)))"
| "do_jpsearch w _ ex = (ex, Some AttributeError)"

text \<open>
  \<open>resolved_args[0]\<close>: the first element of a list, the first character of a string,
  the first byte of a bytes object as an integer, \<open>KeyError(0)\<close> on a dictionary (its
  keys are strings), \<open>IndexError\<close> on an empty sequence, \<open>TypeError\<close> on anything else.
\<close>

fun subscript0 :: "pval \<Rightarrow> error + pval" where
  "subscript0 (PyList []) = Inl IndexError"
| "subscript0 (PyList (x # xs)) = Inr x"
| "subscript0 (PyStr []) = Inl IndexError"
| "subscript0 (PyStr (c # s)) = Inr (PyStr [c])"
| "subscript0 (PyBytes []) = Inl IndexError"
| "subscript0 (PyBytes (c # s)) = Inr (PyInt (of_char c))"
| "subscript0 (PyDict d) = Inl (KeyError (PyInt 0))"
| "subscript0 _ = Inl TypeError"

text \<open>\<open>value.split(':')\<close>: a method of strings; on bytes the string separator is a
  \<open>TypeError\<close>; other values have no such attribute.\<close>

fun split_colon :: "pval \<Rightarrow> error + string list" where
  "split_colon (PyStr s) = Inr (split (CHR '':'') s)"
| "split_colon (PyBytes b) = Inl TypeError"
| "split_colon _ = Inl AttributeError"

fun do_builtinfunction :: "'c world \<Rightarrow> instruction \<Rightarrow> 'c executor \<Rightarrow> 'c outcome" where
  "do_builtinfunction w (BuiltinFunction function_name args output_var) ex =
     (if function_name = ''parse_arn'' then
        (case resolve_variables (format w) args (variables ex) of
           Inl e \<Rightarrow> (ex, Some e)
         | Inr resolved_args \<Rightarrow>
             (case subscript0 resolved_args of
                Inl e \<Rightarrow> (ex, Some e)
              | Inr value \<Rightarrow>
                  (case split_colon value of
                     Inl e \<Rightarrow> (ex, Some e)
                   | Inr parts \<Rightarrow>
                       if length parts \<le> 4 then (ex, Some IndexError)
                       else (ex\<lparr>variables := (variables ex)(output_var \<mapsto>
                               PyDict [(''service'', PyStr (parts ! 2)),
                                       (''region'', PyStr (parts ! 3)),
                                       (''account_id'', PyStr (parts ! 4))])\<rparr>,
                             None))))
      else (ex, Some (ValueError (''Unknown builtin function: '' @ function_name))))"
| "do_builtinfunction w _ ex = (ex, Some AttributeError)"

text \<open>
  \<open>getattr(self, '_do_%s' % instruction.__class__.__name__.lower(),
  self._default_handler)(instruction)\<close>: the attributes of an \<open>Executor\<close> whose names
  start with \<open>_do_\<close> are the seven handlers.
\<close>

definition dispatch :: "'c world \<Rightarrow> instruction \<Rightarrow> 'c executor \<Rightarrow> 'c outcome" where
  "dispatch w instruction ex =
     (let n = lower (class_name instruction) in
      if n = ''apicall'' then do_apicall w instruction ex
      else if n = ''copyvariable'' then do_copyvariable instruction ex
      else if n = ''storevalue'' then do_storevalue w instruction ex
      else if n = ''recordresourcevariable'' then do_recordresourcevariable instruction ex
      else if n = ''recordresourcevalue'' then do_recordresourcevalue instruction ex
      else if n = ''jpsearch'' then do_jpsearch w instruction ex
      else if n = ''builtinfunction'' then do_builtinfunction w instruction ex
      else default_handler instruction ex)"

text \<open>
  A plan: the instructions, each with its identity \<open>id(instruction)\<close>, and the messages
  keyed by identity.
\<close>

record plan =
  instructions :: "(nat \<times> instruction) list"
  messages :: "nat \<rightharpoonup> string"

fun execute_loop ::
  "'c world \<Rightarrow> (nat \<rightharpoonup> string) \<Rightarrow> (nat \<times> instruction) list \<Rightarrow> 'c executor \<Rightarrow> 'c outcome"
where
  "execute_loop w msgs [] ex = (ex, None)"
| "execute_loop w msgs ((ident, instruction) # rest) ex =
     (let ex1 = (case msgs ident of None \<Rightarrow> ex | Some message \<Rightarrow> ui_write message ex)
      in case dispatch w instruction ex1 of
           (ex2, Some e) \<Rightarrow> (ex2, Some e)
         | (ex2, None) \<Rightarrow> execute_loop w msgs rest ex2)"

definition execute :: "'c world \<Rightarrow> plan \<Rightarrow> 'c executor \<Rightarrow> 'c outcome" where
  "execute w p ex = execute_loop w (messages p) (instructions p) ex"

section \<open>DisplayOnlyExecutor\<close>

definition MAX_BYTE_LENGTH :: nat where
  "MAX_BYTE_LENGTH = 30"

text \<open>The box-drawing character U+2502, as its three bytes in UTF-8.\<close>

definition LINE_VERTICAL :: string where
  "LINE_VERTICAL = [char_of (226 :: nat), char_of (148 :: nat), char_of (130 :: nat)]"

definition newline :: char where
  "newline = CHR 0x0A"

text \<open>
  What the renderer takes from the Python library on strings: \<open>str\<close> of a value that
  is not a string, and \<open>str.upper\<close>, which follows Unicode. Both are parameters.
\<close>

record pylib =
  str_of :: "pval \<Rightarrow> string"
  str_upper :: "string \<Rightarrow> string"

text \<open>
  A string is its bytes in UTF-8. \<open>len\<close> of a Python string counts characters: the bytes
  that do not continue a character (the continuation bytes are \<open>0x80\<close> to \<open>0xBF\<close>).
\<close>

definition continuation_byte :: "char \<Rightarrow> bool" where
  "continuation_byte c \<longleftrightarrow> 128 \<le> (of_char c :: nat) \<and> (of_char c :: nat) < 192"

definition char_count :: "string \<Rightarrow> nat" where
  "char_count s = length (filter (\<lambda>c. \<not> continuation_byte c) s)"

text \<open>
  The conversions \<open>%-ns\<close> and \<open>%ns\<close> of a string: padding to \<open>n\<close> characters, never
  truncation.
\<close>

definition ljust :: "nat \<Rightarrow> string \<Rightarrow> string" where
  "ljust n s = s @ replicate (n - char_count s) (CHR '' '')"

definition rjust :: "nat \<Rightarrow> string \<Rightarrow> string" where
  "rjust n s = replicate (n - char_count s) (CHR '' '') @ s"

text \<open>
  \<open>'%s' % value\<close>: a string is printed as it is; for every other value it is Python's
  \<open>str\<close>.
\<close>

definition percent_s :: "pylib \<Rightarrow> pval \<Rightarrow> string" where
  "percent_s lib value = (case value of PyStr s \<Rightarrow> s | _ \<Rightarrow> str_of lib value)"

text \<open>The decimal digits of a natural number: \<open>'%s' % len(spillover_values)\<close>.\<close>

fun str_nat :: "nat \<Rightarrow> string" where
  "str_nat n = (if n < 10 then [digits ! n] else str_nat (n div 10) @ [digits ! (n mod 10)])"

fun join :: "string \<Rightarrow> string list \<Rightarrow> string" where
  "join sep [] = []"
| "join sep [l] = l"
| "join sep (l # ls) = l @ sep @ join sep ls"

text \<open>
  \<open>not value\<close>: the values Python takes for false are \<open>None\<close>, \<open>False\<close>, zero, and the
  empty string, bytes, list and dictionary.
\<close>

fun truthy :: "pval \<Rightarrow> bool" where
  "truthy PyNone = False"
| "truthy (PyBool b) = b"
| "truthy (PyInt i) = (i \<noteq> 0)"
| "truthy (PyStr s) = (s \<noteq> [])"
| "truthy (PyBytes b) = (b \<noteq> [])"
| "truthy (PyList xs) = (xs \<noteq> [])"
| "truthy (PyDict d) = (d \<noteq> [])"
| "truthy _ = True"

fun long_bytes :: "pval \<Rightarrow> bool" where
  "long_bytes (PyBytes b) = (length b > MAX_BYTE_LENGTH)"
| "long_bytes _ = False"

fun is_dict_or_list :: "pval \<Rightarrow> bool" where
  "is_dict_or_list (PyDict d) = True"
| "is_dict_or_list (PyList xs) = True"
| "is_dict_or_list _ = False"

definition spillover_name :: "pylib \<Rightarrow> string \<Rightarrow> nat \<Rightarrow> string" where
  "spillover_name lib key n = ''${'' @ str_upper lib key @ ''_'' @ str_nat n @ ''}''"

definition dict_line :: "pylib \<Rightarrow> string \<Rightarrow> pval \<Rightarrow> string" where
  "dict_line lib key value =
     ljust 31 '' '' @ LINE_VERTICAL @ ljust 15 '' '' @ LINE_VERTICAL
     @ rjust 20 (key @ '':'') @ '' '' @ ljust 10 (percent_s lib value)"

text \<open>The loop of \<open>_format_dict\<close> over \<open>dict_value.items()\<close>.\<close>

fun format_dict_loop ::
  "pylib \<Rightarrow> pydict \<Rightarrow> string list \<Rightarrow> pydict \<Rightarrow> string list \<times> pydict" where
  "format_dict_loop lib [] lines spillover_values = (lines, spillover_values)"
| "format_dict_loop lib ((key, value) # rest) lines spillover_values =
     (if \<not> truthy value then format_dict_loop lib rest lines spillover_values
      else
        let value1 = (if long_bytes value then PyStr ''<bytes>'' else value) in
        if is_dict_or_list value1 then
          let name = spillover_name lib key (length spillover_values) in
          format_dict_loop lib rest
            (lines @ [dict_line lib key (PyStr name)])
            (dict_set spillover_values name value1)
        else
          format_dict_loop lib rest (lines @ [dict_line lib key value1])
            spillover_values)"

definition format_dict :: "pylib \<Rightarrow> pydict \<Rightarrow> pydict \<Rightarrow> string \<times> pydict" where
  "format_dict lib dict_value spillover_values =
     (case format_dict_loop lib dict_value [[]] spillover_values of
        (lines, spillover_values') \<Rightarrow> (join [newline] lines, spillover_values'))"

















section \<open>The Python library on the values of the examples\<close>

text \<open>
  The theorems below hold for every formatter and every rendering of values. The examples
  need one of each. \<open>format_fields\<close> is \<open>template.format(**kwargs)\<close> on templates of
  literal text, the doubled braces, and replacement fields \<open>{name}\<close> whose argument is a
  string: a name that is no keyword raises \<open>KeyError\<close>, a field without a name is
  positional and raises \<open>IndexError\<close>, a brace on its own raises \<open>ValueError\<close>.
  Conversions, format specifications, attribute and index lookups and arguments that are
  not strings are not modelled; \<open>ValueError\<close> stands for them.
\<close>

fun format_scan :: "pydict \<Rightarrow> string \<Rightarrow> string \<Rightarrow> error + string"
  and format_field :: "pydict \<Rightarrow> string \<Rightarrow> string \<Rightarrow> string \<Rightarrow> error + string" where
  "format_scan kwargs [] out = Inr out"
| "format_scan kwargs [c] out =
     (if c = CHR ''{'' \<or> c = CHR ''}'' then Inl (ValueError ''Single brace in format string'')
      else Inr (out @ [c]))"
| "format_scan kwargs (c # d # t) out =
     (if c = CHR ''{'' then
        (if d = CHR ''{'' then format_scan kwargs t (out @ [c])
         else format_field kwargs (d # t) [] out)
      else if c = CHR ''}'' then
        (if d = CHR ''}'' then format_scan kwargs t (out @ [c])
         else Inl (ValueError ''Single brace in format string''))
      else format_scan kwargs (d # t) (out @ [c]))"
| "format_field kwargs [] name out = Inl (ValueError ''Unclosed field in format string'')"
| "format_field kwargs (c # t) name out =
     (if c = CHR ''}'' then
        (if name = [] then Inl IndexError
         else (case dict_get kwargs name of
                 None \<Rightarrow> Inl (KeyError (PyStr name))
               | Some (PyStr s) \<Rightarrow> format_scan kwargs t (out @ s)
               | Some _ \<Rightarrow> Inl (ValueError ''not modelled'')))
      else if c \<in> set ''{.[!:'' then Inl (ValueError ''not modelled'')
      else format_field kwargs t (name @ [c]) out)"

definition format_fields :: formatter where
  "format_fields template kwargs = format_scan kwargs template []"






section \<open>Predicates on values\<close>

text \<open>
  The distinct elements of a list in the order of their first occurrence (\<open>remdups\<close>
  keeps the last occurrence of an element, so it is applied to the reversed list).
\<close>

definition first_seen :: "'a list \<Rightarrow> 'a list" where
  "first_seen xs = rev (remdups (rev xs))"

text \<open>
  The keyword arguments of a template, as the specification has them: each of its names,
  once, in the order of first occurrence, with the store's value for it.
\<close>

definition template_kwargs :: "store \<Rightarrow> string list \<Rightarrow> pydict" where
  "template_kwargs vars names =
     map (\<lambda>n. (n, case vars n of None \<Rightarrow> PyNone | Some v \<Rightarrow> v)) (first_seen names)"

text \<open>A placeholder occurs in the value, at any depth under dictionaries and lists.\<close>

fun has_placeholder :: "pval \<Rightarrow> bool"
  and has_placeholder_items :: "pydict \<Rightarrow> bool"
  and has_placeholder_elems :: "pval list \<Rightarrow> bool" where
  "has_placeholder (Placeholder p) = True"
| "has_placeholder (PyDict d) = has_placeholder_items d"
| "has_placeholder (PyList xs) = has_placeholder_elems xs"
| "has_placeholder _ = False"
| "has_placeholder_items [] = False"
| "has_placeholder_items ((k, v) # d) = (has_placeholder v \<or> has_placeholder_items d)"
| "has_placeholder_elems [] = False"
| "has_placeholder_elems (v # xs) = (has_placeholder v \<or> has_placeholder_elems xs)"

text \<open>
  Every \<open>Variable\<close> of the value is bound in the store, and for every \<open>StringFormat\<close>
  of the value the names are bound and \<open>str.format\<close> succeeds on the template and their
  values.
\<close>

fun refs_ok :: "formatter \<Rightarrow> store \<Rightarrow> pval \<Rightarrow> bool"
  and refs_ok_items :: "formatter \<Rightarrow> store \<Rightarrow> pydict \<Rightarrow> bool"
  and refs_ok_elems :: "formatter \<Rightarrow> store \<Rightarrow> pval list \<Rightarrow> bool" where
  "refs_ok fmt vars (Variable name) = (vars name \<noteq> None)"
| "refs_ok fmt vars (StringFormat template names) =
     (list_all (\<lambda>n. vars n \<noteq> None) names
      \<and> (case fmt template (template_kwargs vars names) of Inl e \<Rightarrow> False | Inr s \<Rightarrow> True))"
| "refs_ok fmt vars (PyDict d) = refs_ok_items fmt vars d"
| "refs_ok fmt vars (PyList xs) = refs_ok_elems fmt vars xs"
| "refs_ok fmt vars _ = True"
| "refs_ok_items fmt vars [] = True"
| "refs_ok_items fmt vars ((k, v) # d) = (refs_ok fmt vars v \<and> refs_ok_items fmt vars d)"
| "refs_ok_elems fmt vars [] = True"
| "refs_ok_elems fmt vars (v # xs) = (refs_ok fmt vars v \<and> refs_ok_elems fmt vars xs)"

text \<open>The keys of every dictionary of the value are distinct, as in a Python \<open>dict\<close>.\<close>

fun distinct_keys :: "pval \<Rightarrow> bool"
  and distinct_keys_items :: "pydict \<Rightarrow> bool"
  and distinct_keys_elems :: "pval list \<Rightarrow> bool" where
  "distinct_keys (PyDict d) = (distinct (map fst d) \<and> distinct_keys_items d)"
| "distinct_keys (PyList xs) = distinct_keys_elems xs"
| "distinct_keys _ = True"
| "distinct_keys_items [] = True"
| "distinct_keys_items ((k, v) # d) = (distinct_keys v \<and> distinct_keys_items d)"
| "distinct_keys_elems [] = True"
| "distinct_keys_elems (v # xs) = (distinct_keys v \<and> distinct_keys_elems xs)"

text \<open>
  The value holds no \<open>Variable\<close>, \<open>StringFormat\<close> or \<open>Placeholder\<close>: it is made of
  scalars, lists and dictionaries only.
\<close>

fun plain :: "pval \<Rightarrow> bool"
  and plain_items :: "pydict \<Rightarrow> bool"
  and plain_elems :: "pval list \<Rightarrow> bool" where
  "plain (Variable name) = False"
| "plain (StringFormat template names) = False"
| "plain (Placeholder p) = False"
| "plain (PyDict d) = plain_items d"
| "plain (PyList xs) = plain_elems xs"
| "plain _ = True"
| "plain_items [] = True"
| "plain_items ((k, v) # d) = (plain v \<and> plain_items d)"
| "plain_elems [] = True"
| "plain_elems (v # xs) = (plain v \<and> plain_elems xs)"

text \<open>
  What the specification says resolution returns: the same container, with the same keys
  and the same order, where each \<open>Variable(name)\<close> is replaced by the store's value for
  \<open>name\<close> and each \<open>StringFormat\<close> by the string that \<open>str.format\<close> makes of its
  template and keyword arguments; every other leaf is unchanged. (A reference that the
  store does not bind, and a template that does not format, are left as they are.)
\<close>

fun substitute :: "formatter \<Rightarrow> store \<Rightarrow> pval \<Rightarrow> pval"
  and substitute_items :: "formatter \<Rightarrow> store \<Rightarrow> pydict \<Rightarrow> pydict"
  and substitute_elems :: "formatter \<Rightarrow> store \<Rightarrow> pval list \<Rightarrow> pval list" where
  "substitute fmt vars (Variable name) =
     (case vars name of None \<Rightarrow> Variable name | Some v \<Rightarrow> v)"
| "substitute fmt vars (StringFormat template names) =
     (case fmt template (template_kwargs vars names) of
        Inl e \<Rightarrow> StringFormat template names | Inr s \<Rightarrow> PyStr s)"
| "substitute fmt vars (PyDict d) = PyDict (substitute_items fmt vars d)"
| "substitute fmt vars (PyList xs) = PyList (substitute_elems fmt vars xs)"
| "substitute fmt vars v = v"
| "substitute_items fmt vars [] = []"
| "substitute_items fmt vars ((k, v) # d) =
     (k, substitute fmt vars v) # substitute_items fmt vars d"
| "substitute_elems fmt vars [] = []"
| "substitute_elems fmt vars (v # xs) = substitute fmt vars v # substitute_elems fmt vars xs"

section \<open>Resource records, as the specification describes them\<close>

text \<open>
  The recording instructions, the resource name and the attribute name of one, and the
  payload its handler builds from the store.
\<close>

fun record_name :: "instruction \<Rightarrow> string" where
  "record_name (RecordResourceVariable resource_name resource_type name variable_name) =
     resource_name"
| "record_name (RecordResourceValue resource_name resource_type name value) = resource_name"
| "record_name _ = []"

fun record_payload :: "store \<Rightarrow> instruction \<Rightarrow> pydict" where
  "record_payload vars (RecordResourceVariable resource_name resource_type name variable_name) =
     make_payload resource_name resource_type name
       (case vars variable_name of None \<Rightarrow> PyNone | Some v \<Rightarrow> v)"
| "record_payload vars (RecordResourceValue resource_name resource_type name value) =
     make_payload resource_name resource_type name value"
| "record_payload vars _ = []"

text \<open>
  A recording instruction whose attribute is not called \<open>name\<close> and, for
  \<open>RecordResourceVariable\<close>, whose variable is bound in the store.
\<close>

fun recordable :: "store \<Rightarrow> instruction \<Rightarrow> bool" where
  "recordable vars (RecordResourceVariable resource_name resource_type name variable_name) =
     (name \<noteq> ''name'' \<and> vars variable_name \<noteq> None)"
| "recordable vars (RecordResourceValue resource_name resource_type name value) =
     (name \<noteq> ''name'')"
| "recordable vars _ = False"

text \<open>The payloads of one resource merged in order: the later write wins for a key.\<close>

fun merged_record :: "pydict list \<Rightarrow> pydict" where
  "merged_record [] = []"
| "merged_record (p # ps) = foldl dict_update p ps"

text \<open>
  One record for each distinct resource name, in the order of the first recording, each
  the merge of the payloads recorded under that name.
\<close>

definition expected_records :: "store \<Rightarrow> instruction list \<Rightarrow> pydict list" where
  "expected_records vars is =
     map (\<lambda>n. merged_record (map (record_payload vars) (filter (\<lambda>i. record_name i = n) is)))
       (first_seen (map record_name is))"

text \<open>
  What the executor's state holds after the recording instructions \<open>done\<close>: the objects
  are the expected records, \<open>resource_values\<close> lists them all in order, and the index
  maps each resource name seen to the address of its record.
\<close>

definition records_inv :: "store \<Rightarrow> 'c executor \<Rightarrow> instruction list \<Rightarrow> bool" where
  "records_inv vars ex done \<longleftrightarrow>
     variables ex = vars
     \<and> objects ex = expected_records vars done
     \<and> resource_values ex = [0..<length (objects ex)]
     \<and> (\<forall>j < length (first_seen (map record_name done)).
          map_of (resource_value_index ex) (PyStr (first_seen (map record_name done) ! j))
            = Some j)
     \<and> (\<forall>n. n \<notin> set (map record_name done) \<longrightarrow>
          map_of (resource_value_index ex) (PyStr n) = None)"

section \<open>The overflow pool, as the specification describes it\<close>




section \<open>Names and objects\<close>

text \<open>
  In the state above a variable is bound to a value. Python binds it to an object, and
  two names can be bound to the same object. To say whether \<open>CopyVariable\<close> copies, the
  store is read one level lower: \<open>bindings\<close> maps a variable name to the address of its
  object, \<open>heap\<close> an address to the object's value. \<open>read_var\<close> is \<open>variables[name]\<close>
  as a value, the store of the state above.
\<close>

record ref_store =
  bindings :: "string \<rightharpoonup> nat"
  heap :: "nat \<rightharpoonup> pval"

definition read_var :: "ref_store \<Rightarrow> store" where
  "read_var rs name = (case bindings rs name of None \<Rightarrow> None | Some a \<Rightarrow> heap rs a)"

text \<open>
  \<open>_do_copyvariable\<close> on names and objects:
  \<open>self.variables[to_var] = self.variables[from_var]\<close> binds \<open>to_var\<close> to the object
  of \<open>from_var\<close>; no object is made.
\<close>

definition do_copyvariable_ref :: "string \<Rightarrow> string \<Rightarrow> ref_store \<Rightarrow> error + ref_store" where
  "do_copyvariable_ref from_var to_var rs =
     (case bindings rs from_var of
        None \<Rightarrow> Inl (KeyError (PyStr from_var))
      | Some a \<Rightarrow> Inr (rs\<lparr>bindings := (bindings rs)(to_var \<mapsto> a)\<rparr>))"

text \<open>
  A mutation in place of the dictionary bound to a name, \<open>variables[name][key] = value\<close>.
  No instruction of the executor does it; it is what a holder of the object (the caller,
  the API client) can do.
\<close>

definition setitem_ref :: "string \<Rightarrow> string \<Rightarrow> pval \<Rightarrow> ref_store \<Rightarrow> error + ref_store" where
  "setitem_ref name key value rs =
     (case bindings rs name of
        None \<Rightarrow> Inl (KeyError (PyStr name))
      | Some a \<Rightarrow>
          (case heap rs a of
             Some (PyDict d) \<Rightarrow> Inr (rs\<lparr>heap := (heap rs)(a \<mapsto> PyDict (dict_set d key value))\<rparr>)
           | _ \<Rightarrow> Inl TypeError))"

section \<open>Properties\<close>

subsection \<open>Explain mode: entries with a false value\<close>

lemma format_dict_loop_filter:
  "format_dict_loop lib d lines sp =
   format_dict_loop lib (filter (\<lambda>kv. truthy (snd kv)) d) lines sp"
  by (induction d arbitrary: lines sp) (auto simp: Let_def)

lemma falsy_iff:
  "\<not> truthy v \<longleftrightarrow>
   v \<in> {PyNone, PyBool False, PyInt 0, PyStr [], PyBytes [], PyList [], PyDict []}"
  by (cases v) auto

text \<open>
  Claim C10. In \<open>_format_dict\<close>, an entry whose value is false for Python (\<open>None\<close>,
  \<open>False\<close>, zero, the empty string, bytes, list or dictionary) is skipped: the text of
  the sub-block and the overflow pool are those of the mapping without that entry, also
  when the value is an empty collection.
\<close>

theorem format_dict_omits_falsy:
  "(\<not> truthy v \<longleftrightarrow>
      v \<in> {PyNone, PyBool False, PyInt 0, PyStr [], PyBytes [], PyList [], PyDict []})
   \<and> (\<not> truthy v \<longrightarrow>
        format_dict lib (before @ (key, v) # after) spillover_values =
        format_dict lib (before @ after) spillover_values)
   \<and> format_dict lib d spillover_values =
       format_dict lib (filter (\<lambda>kv. truthy (snd kv)) d) spillover_values"
proof -
  have "format_dict lib (before @ (key, v) # after) spillover_values =
        format_dict lib (before @ after) spillover_values" if "\<not> truthy v"
    unfolding format_dict_def
    using that format_dict_loop_filter [of lib "before @ (key, v) # after"]
      format_dict_loop_filter [of lib "before @ after"]
    by simp
  then show ?thesis
    using falsy_iff [of v] format_dict_loop_filter [of lib d "[[]]" spillover_values]
    by (simp add: format_dict_def)
qed

theorem format_dict_omits_falsy_witness:
  "\<not> truthy (PyList []) \<and>
   (\<forall>lib. format_dict lib
      [(''tags'', PyList []), (''name'', PyStr ''app''), (''size'', PyInt 0)] []
    = format_dict lib [(''name'', PyStr ''app'')] []) \<and>
   (\<forall>lib. snd (format_dict lib [(''tags'', PyList []), (''env'', PyDict [])] []) = [])"
  using format_dict_omits_falsy [of "PyList []" _ "[]" "''tags''"
      "[(''name'', PyStr ''app''), (''size'', PyInt 0)]" "[]" "[]"]
    format_dict_omits_falsy [of "PyInt 0" _ "[(''name'', PyStr ''app'')]" "''size''"
      "[]" "[]" "[]"]
  by (simp add: format_dict_def)

subsection \<open>Dispatch by class name\<close>

lemmas lower_simps = lower_def lower_char_def ascii_uppercase_def ascii_lowercase_def

lemma dispatch_builtinfunction:
  "dispatch w (BuiltinFunction f a ov) ex = do_builtinfunction w (BuiltinFunction f a ov) ex"
  by (simp add: dispatch_def lower_simps)

subsection \<open>The builtin function \<open>parse_arn\<close>\<close>

text \<open>
  \<open>s.split(c)\<close> and \<open>c.join(parts)\<close> are inverse to each other: splitting the
  segments joined by \<open>c\<close> gives the segments back when none of them contains \<open>c\<close>,
  joining the parts of a string gives the string back, and no part contains \<open>c\<close>.
\<close>

lemma split_not_Nil: "split c s \<noteq> []"
  by (induction s) (auto split: list.splits)

lemma split_free: "c \<notin> set p \<Longrightarrow> split c p = [p]"
  by (induction p) auto

lemma split_append: "c \<notin> set p \<Longrightarrow> split c (p @ c # r) = p # split c r"
  by (induction p) auto

lemma join_Cons_Cons: "join sep ((x # p) # ps) = x # join sep (p # ps)"
  by (cases ps) auto

lemma split_join:
  "parts \<noteq> [] \<Longrightarrow> \<forall>p \<in> set parts. c \<notin> set p \<Longrightarrow> split c (join [c] parts) = parts"
proof (induction parts)
  case Nil
  then show ?case by simp
next
  case (Cons p parts)
  show ?case
  proof (cases parts)
    case Nil
    with Cons.prems show ?thesis by (simp add: split_free)
  next
    case (Cons q qs)
    with Cons.IH Cons.prems show ?thesis by (simp add: split_append)
  qed
qed

lemma join_split: "join [c] (split c s) = s"
proof (induction s)
  case Nil
  show ?case by simp
next
  case (Cons x s)
  obtain p ps where ps: "split c s = p # ps"
    using split_not_Nil [of c s] by (cases "split c s") auto
  with Cons show ?case by (simp add: join_Cons_Cons)
qed

lemma split_parts_free: "\<forall>p \<in> set (split c s). c \<notin> set p"
  by (induction s) (auto split: list.splits)

text \<open>
  Claim C6. Executing \<open>BuiltinFunction('parse_arn', args, output_var)\<close> whose \<open>args\<close>
  resolve to a list that starts with the string of at least five segments joined by
  colons, none of them containing a colon, stores under \<open>output_var\<close> the dictionary of
  \<open>service\<close>, \<open>region\<close> and \<open>account_id\<close>, the segments 2, 3 and 4 counted from
  zero. The same holds of the parts of any string that has at least five of them, where
  the parts are colon-free and joined by colons give the string back. Any other function
  name raises \<open>ValueError\<close> with the message \<open>Unknown builtin function: <name>\<close>.
\<close>

theorem parse_arn_stores_segments:
  "(resolve_variables (format w) args (variables ex)
        = Inr (PyList (PyStr (join '':'' parts) # rest))
      \<and> 5 \<le> length parts \<and> (\<forall>p \<in> set parts. CHR '':'' \<notin> set p) \<longrightarrow>
    dispatch w (BuiltinFunction ''parse_arn'' args output_var) ex =
      (ex\<lparr>variables := (variables ex)(output_var \<mapsto>
           PyDict [(''service'', PyStr (parts ! 2)),
                   (''region'', PyStr (parts ! 3)),
                   (''account_id'', PyStr (parts ! 4))])\<rparr>, None))
   \<and> (resolve_variables (format w) args (variables ex) = Inr (PyList (PyStr s # rest))
      \<and> 5 \<le> length (split (CHR '':'') s) \<longrightarrow>
    dispatch w (BuiltinFunction ''parse_arn'' args output_var) ex =
      (ex\<lparr>variables := (variables ex)(output_var \<mapsto>
           PyDict [(''service'', PyStr (split (CHR '':'') s ! 2)),
                   (''region'', PyStr (split (CHR '':'') s ! 3)),
                   (''account_id'', PyStr (split (CHR '':'') s ! 4))])\<rparr>, None))
   \<and> join '':'' (split (CHR '':'') s) = s
   \<and> (\<forall>p \<in> set (split (CHR '':'') s). CHR '':'' \<notin> set p)
   \<and> (function_name \<noteq> ''parse_arn'' \<longrightarrow>
    dispatch w (BuiltinFunction function_name args output_var) ex =
      (ex, Some (ValueError (''Unknown builtin function: '' @ function_name))))"
proof -
  have "split (CHR '':'') (join '':'' parts) = parts"
    if "5 \<le> length parts" "\<forall>p \<in> set parts. CHR '':'' \<notin> set p"
  proof -
    from that(1) have "parts \<noteq> []" by (cases parts) simp_all
    with that(2) show ?thesis using split_join [of parts "CHR '':''"] by simp
  qed
  then show ?thesis
    using join_split [of "CHR '':''" s] split_parts_free [of "CHR '':''" s]
    by (auto simp: dispatch_builtinfunction)
qed

theorem parse_arn_stores_segments_witness:
  "\<forall>w ex.
     dispatch w (BuiltinFunction ''parse_arn''
         (PyList [PyStr ''arn:aws:lambda:us-west-2:123456789012:function:foo'']) ''parsed'')
         (ex :: unit executor)
       = (ex\<lparr>variables := (variables ex)(''parsed'' \<mapsto>
            PyDict [(''service'', PyStr ''lambda''), (''region'', PyStr ''us-west-2''),
                    (''account_id'', PyStr ''123456789012'')])\<rparr>, None)
     \<and> dispatch w (BuiltinFunction ''to_upper''
         (PyList [PyStr ''arn:aws:lambda:us-west-2:123456789012:function:foo'']) ''parsed'') ex
       = (ex, Some (ValueError ''Unknown builtin function: to_upper''))"
proof (intro allI)
  fix w :: "unit world" and ex :: "unit executor"
  have j: "join '':'' [''arn'', ''aws'', ''lambda'', ''us-west-2'', ''123456789012'',
      ''function'', ''foo''] = ''arn:aws:lambda:us-west-2:123456789012:function:foo''"
    by simp
  show "dispatch w (BuiltinFunction ''parse_arn''
         (PyList [PyStr ''arn:aws:lambda:us-west-2:123456789012:function:foo'']) ''parsed'')
         (ex :: unit executor)
       = (ex\<lparr>variables := (variables ex)(''parsed'' \<mapsto>
            PyDict [(''service'', PyStr ''lambda''), (''region'', PyStr ''us-west-2''),
                    (''account_id'', PyStr ''123456789012'')])\<rparr>, None)
     \<and> dispatch w (BuiltinFunction ''to_upper''
         (PyList [PyStr ''arn:aws:lambda:us-west-2:123456789012:function:foo'']) ''parsed'') ex
       = (ex, Some (ValueError ''Unknown builtin function: to_upper''))"
    using parse_arn_stores_segments [where w = w and ex = ex and rest = "[]"
        and args = "PyList [PyStr ''arn:aws:lambda:us-west-2:123456789012:function:foo'']"
        and parts = "[''arn'', ''aws'', ''lambda'', ''us-west-2'', ''123456789012'',
          ''function'', ''foo'']"
        and output_var = "''parsed''" and function_name = "''to_upper''"]
    unfolding j
    by (simp del: split.simps)
qed

subsection \<open>Names that the store does not bind\<close>

lemma dispatch_copyvariable:
  "dispatch w (CopyVariable f t) ex = do_copyvariable (CopyVariable f t) ex"
  by (simp add: dispatch_def lower_simps)

lemma format_kwargs_unbound:
  "\<forall>n \<in> set before. vars n \<noteq> None \<Longrightarrow> vars name = None \<Longrightarrow>
   format_kwargs (before @ name # after) vars acc = Inl (KeyError (PyStr name))"
  by (induction before arbitrary: acc) (auto simp: lookup_var_def)

lemma format_kwargs_bound:
  "\<forall>n \<in> set names. vars n \<noteq> None \<Longrightarrow>
   format_kwargs names vars acc = Inr (dict_update acc (map (\<lambda>n. (n, the (vars n))) names))"
  by (induction names arbitrary: acc) (auto simp: lookup_var_def)

text \<open>
  Claim C8, as the code has it. When \<open>name\<close> is not bound in the store, resolving
  \<open>Variable(name)\<close> and executing \<open>CopyVariable\<close> from \<open>name\<close> raise \<open>KeyError(name)\<close>;
  resolving a \<open>StringFormat\<close> whose variable list contains \<open>name\<close> raises the
  \<open>KeyError\<close> of the first name of the list that is not bound, which is \<open>name\<close> when the
  names before it are bound. When \<open>name\<close> is bound, the reference resolves to its value
  and the copy binds the destination to it; when every name of a \<open>StringFormat\<close> is
  bound, the lookups succeed and the result is what \<open>str.format\<close> makes of the template
  and these values.
\<close>

theorem undefined_variable_lookups:
  "(variables ex name = None \<longrightarrow>
      resolve_variables fmt (Variable name) (variables ex) = Inl (KeyError (PyStr name))
    \<and> dispatch w (CopyVariable name to_var) ex = (ex, Some (KeyError (PyStr name)))
    \<and> ((\<forall>n \<in> set before. variables ex n \<noteq> None) \<longrightarrow>
         resolve_variables fmt (StringFormat template (before @ name # after)) (variables ex)
           = Inl (KeyError (PyStr name))))
   \<and> (variables ex name = Some v \<longrightarrow>
      resolve_variables fmt (Variable name) (variables ex) = Inr v
    \<and> dispatch w (CopyVariable name to_var) ex
        = (ex\<lparr>variables := (variables ex)(to_var \<mapsto> v)\<rparr>, None))
   \<and> ((\<forall>n \<in> set names. variables ex n \<noteq> None) \<longrightarrow>
      format_kwargs names (variables ex) []
        = Inr (dict_update [] (map (\<lambda>n. (n, the (variables ex n))) names))
    \<and> resolve_variables fmt (StringFormat template names) (variables ex)
        = map_sum id PyStr
            (fmt template (dict_update [] (map (\<lambda>n. (n, the (variables ex n))) names))))"
proof (intro conjI impI)
  assume "\<forall>n \<in> set names. variables ex n \<noteq> None"
  from format_kwargs_bound [OF this, of "[]"]
  show "format_kwargs names (variables ex) []
        = Inr (dict_update [] (map (\<lambda>n. (n, the (variables ex n))) names))"
    and "resolve_variables fmt (StringFormat template names) (variables ex)
        = map_sum id PyStr
            (fmt template (dict_update [] (map (\<lambda>n. (n, the (variables ex n))) names)))"
    by (simp_all split: sum.splits)
qed (simp_all add: dispatch_copyvariable lookup_var_def format_kwargs_unbound)

text \<open>
  As stated, with \<open>KeyError(name)\<close> for every unbound \<open>name\<close> of the list, the claim
  fails: with \<open>a\<close> and \<open>b\<close> both unbound, the error names \<open>a\<close>, not \<open>b\<close>.
\<close>

theorem undefined_variable_lookups_counterexample:
  "resolve_variables format_fields (StringFormat ''{a}-{b}'' [''a'', ''b'']) Map.empty
     = Inl (KeyError (PyStr ''a''))
   \<and> resolve_variables format_fields (StringFormat ''{a}-{b}'' [''a'', ''b'']) Map.empty
     \<noteq> Inl (KeyError (PyStr ''b''))"
  by (simp add: lookup_var_def)

theorem undefined_variable_lookups_witness:
  "\<forall>w. resolve_variables format_fields (Variable ''role'') (variables (new_executor ()))
       = Inl (KeyError (PyStr ''role''))
   \<and> dispatch w (CopyVariable ''role'' ''copy'') (new_executor ())
       = (new_executor (), Some (KeyError (PyStr ''role'')))
   \<and> resolve_variables format_fields (StringFormat ''{role}'' [''role''])
         (variables (new_executor ()))
       = Inl (KeyError (PyStr ''role''))
   \<and> resolve_variables format_fields (Variable ''arn'')
         (variables ((new_executor ())\<lparr>variables := [''arn'' \<mapsto> PyStr ''X'']\<rparr>))
       = Inr (PyStr ''X'')
   \<and> snd (dispatch w (CopyVariable ''arn'' ''copy'')
         ((new_executor ())\<lparr>variables := [''arn'' \<mapsto> PyStr ''X'']\<rparr>)) = None
   \<and> resolve_variables format_fields (StringFormat ''{arn}:live'' [''arn''])
         (variables ((new_executor ())\<lparr>variables := [''arn'' \<mapsto> PyStr ''X'']\<rparr>))
       = Inr (PyStr ''X:live'')"
  using undefined_variable_lookups [of "new_executor ()" "''role''" format_fields _ "''copy''"
      "[]" "''{role}''" "[]" undefined "[]"]
    undefined_variable_lookups [of "(new_executor ())\<lparr>variables := [''arn'' \<mapsto> PyStr ''X'']\<rparr>"
      "''arn''" format_fields _ "''copy''" "[]" "''{arn}:live''" "[]" "PyStr ''X''" "[''arn'']"]
  by (simp add: new_executor_def format_fields_def)

subsection \<open>Instructions of an unknown class\<close>









subsection \<open>The keyword arguments of a template\<close>

lemma remdups_drop_earlier:
  "n \<in> set ys \<Longrightarrow> remdups (xs @ n # ys) = remdups (xs @ ys)"
  by (induction xs) auto

lemma first_seen_known:
  "n \<in> set ks \<Longrightarrow> first_seen (ks @ n # names) = first_seen (ks @ names)"
  by (simp add: first_seen_def remdups_drop_earlier)

lemma first_seen_distinct_id: "distinct ks \<Longrightarrow> first_seen ks = ks"
  by (simp add: first_seen_def distinct_remdups_id)

lemma dict_set_same:
  "n \<in> set ks \<Longrightarrow> dict_set (map (\<lambda>n. (n, f n)) ks) n (f n) = map (\<lambda>n. (n, f n)) ks"
  by (induction ks) auto

lemma dict_set_new:
  "n \<notin> set ks \<Longrightarrow>
   dict_set (map (\<lambda>n. (n, f n)) ks) n (f n) = map (\<lambda>n. (n, f n)) (ks @ [n])"
  by (induction ks) auto

lemma dict_update_first_seen:
  "distinct ks \<Longrightarrow>
   dict_update (map (\<lambda>n. (n, f n)) ks) (map (\<lambda>n. (n, f n)) names) =
   map (\<lambda>n. (n, f n)) (first_seen (ks @ names))"
proof (induction names arbitrary: ks)
  case Nil
  then show ?case by (simp add: first_seen_distinct_id)
next
  case (Cons n names)
  show ?case
  proof (cases "n \<in> set ks")
    case True
    with Cons show ?thesis by (simp add: dict_set_same first_seen_known)
  next
    case False
    with Cons.prems have "distinct (ks @ [n])" by simp
    from Cons.IH [OF this] False show ?thesis by (simp add: dict_set_new)
  qed
qed

lemma format_kwargs_template:
  assumes "\<forall>n \<in> set names. vars n \<noteq> None"
  shows "format_kwargs names vars [] = Inr (template_kwargs vars names)"
proof -
  have m: "map (\<lambda>n. (n, the (vars n))) names
      = map (\<lambda>n. (n, case vars n of None \<Rightarrow> PyNone | Some v \<Rightarrow> v)) names"
    using assms by (intro map_cong) (auto split: option.splits)
  have "format_kwargs names vars []
      = Inr (dict_update [] (map (\<lambda>n. (n, the (vars n))) names))"
    by (rule format_kwargs_bound [OF assms])
  also have "\<dots> = Inr (dict_update []
      (map (\<lambda>n. (n, case vars n of None \<Rightarrow> PyNone | Some v \<Rightarrow> v)) names))"
    by (simp only: m)
  also have "\<dots> = Inr (template_kwargs vars names)"
    using dict_update_first_seen [of "[]"
        "\<lambda>n. case vars n of None \<Rightarrow> PyNone | Some v \<Rightarrow> v" names]
    by (simp add: template_kwargs_def)
  finally show ?thesis .
qed

lemma resolve_template:
  "\<forall>n \<in> set names. vars n \<noteq> None \<Longrightarrow>
   resolve_variables fmt (StringFormat template names) vars =
   map_sum id PyStr (fmt template (template_kwargs vars names))"
  by (simp add: format_kwargs_template split: sum.splits)

lemma refs_ok_template:
  "refs_ok fmt vars (StringFormat template names) \<Longrightarrow>
   resolve_variables fmt (StringFormat template names) vars
     = Inr (substitute fmt vars (StringFormat template names))"
  by (auto simp: resolve_template list_all_iff simp del: resolve_variables.simps
      split: sum.splits)

subsection \<open>Placeholders\<close>

lemma dispatch_apicall:
  "dispatch w (APICall m p ov) ex = do_apicall w (APICall m p ov) ex"
  by (simp add: dispatch_def lower_simps)

lemma resolve_fails_on_placeholder:
  "has_placeholder v \<Longrightarrow> \<exists>e. resolve_variables fmt v vars = Inl e"
  "has_placeholder_items d \<Longrightarrow> \<exists>e. resolve_items fmt d vars final = Inl e"
  "has_placeholder_elems xs \<Longrightarrow> \<exists>e. resolve_elems fmt xs vars final_list = Inl e"
  by (induction fmt v vars and fmt d vars final and fmt xs vars final_list
      rule: resolve_variables_resolve_items_resolve_elems.induct)
    (auto split: sum.splits)

lemma resolve_items_error_key:
  "resolve_items fmt d vars final = Inl (UnresolvedValueError key value m) \<Longrightarrow>
   key \<in> fst ` set d"
proof (induction d arbitrary: final)
  case Nil
  then show ?case by simp
next
  case (Cons kv d)
  obtain k v where kv: "kv = (k, v)" by (cases kv)
  show ?case
  proof (cases "resolve_variables fmt v vars")
    case (Inl e)
    with Cons.prems kv show ?thesis by (cases e) auto
  next
    case (Inr r)
    with Cons kv show ?thesis by auto
  qed
qed

lemma resolve_succeeds:
  "refs_ok fmt vars v \<Longrightarrow> \<not> has_placeholder v \<Longrightarrow> \<exists>r. resolve_variables fmt v vars = Inr r"
  "refs_ok_items fmt vars d \<Longrightarrow> \<not> has_placeholder_items d \<Longrightarrow>
     \<exists>r. resolve_items fmt d vars final = Inr r"
  "refs_ok_elems fmt vars xs \<Longrightarrow> \<not> has_placeholder_elems xs \<Longrightarrow>
     \<exists>r. resolve_elems fmt xs vars final_list = Inr r"
  by (induction fmt v vars and fmt d vars final and fmt xs vars final_list
      rule: resolve_variables_resolve_items_resolve_elems.induct)
    (auto simp: lookup_var_def format_kwargs_template list_all_iff split: sum.splits)

lemma resolve_unresolved:
  "refs_ok fmt vars v \<Longrightarrow> has_placeholder v \<Longrightarrow>
     \<exists>k p. resolve_variables fmt v vars = Inl (UnresolvedValueError k (Placeholder p) [])"
  "refs_ok_items fmt vars d \<Longrightarrow> has_placeholder_items d \<Longrightarrow>
     \<exists>k p. resolve_items fmt d vars final = Inl (UnresolvedValueError k (Placeholder p) [])"
  "refs_ok_elems fmt vars xs \<Longrightarrow> has_placeholder_elems xs \<Longrightarrow>
     \<exists>k p. resolve_elems fmt xs vars final_list = Inl (UnresolvedValueError k (Placeholder p) [])"
proof (induction fmt v vars and fmt d vars final and fmt xs vars final_list
      rule: resolve_variables_resolve_items_resolve_elems.induct)
  case (12 fmt k v d vars final)
  show ?case
  proof (cases "has_placeholder v")
    case True
    with 12 show ?thesis by auto
  next
    case False
    with 12 resolve_succeeds(1) [of fmt vars v] show ?thesis by auto
  qed
next
  case (14 fmt v xs vars final_list)
  show ?case
  proof (cases "has_placeholder v")
    case True
    with 14 show ?thesis by auto
  next
    case False
    with 14 resolve_succeeds(1) [of fmt vars v] show ?thesis by auto
  qed
qed auto

lemma resolve_items_prefix:
  "refs_ok_items fmt vars before \<Longrightarrow> \<not> has_placeholder_items before \<Longrightarrow>
   \<exists>final'. resolve_items fmt (before @ rest) vars final = resolve_items fmt rest vars final'"
proof (induction before arbitrary: final)
  case Nil
  then show ?case by auto
next
  case (Cons kv before)
  obtain k v where kv: "kv = (k, v)" by (cases kv)
  with Cons.prems resolve_succeeds(1) [of fmt vars v]
  obtain r where "resolve_variables fmt v vars = Inr r" by auto
  with Cons kv show ?case by auto
qed

text \<open>
  Claim C2, as the code has it. Resolving a value in which a placeholder occurs never
  succeeds. Whenever resolving a mapping raises \<open>UnresolvedValueError\<close>, its \<open>key\<close> is
  a top-level key of the mapping, and \<open>_do_apicall\<close> on these parameters raises the
  same error with the call's method name as \<open>method_name\<close>. When the entries before the
  first entry \<open>(k, v)\<close> that holds a placeholder resolve, and the references of \<open>v\<close> do,
  the error is \<open>UnresolvedValueError\<close> with key \<open>k\<close>, at whatever depth the placeholder
  lies in \<open>v\<close>.
\<close>

theorem placeholder_error_names_top_level_key:
  "(has_placeholder v \<longrightarrow> (\<exists>e. resolve_variables (format w) v (variables ex) = Inl e))
   \<and> (resolve_variables (format w) (PyDict d) (variables ex)
         = Inl (UnresolvedValueError key value m) \<longrightarrow>
       key \<in> fst ` set d
       \<and> dispatch w (APICall method_name (PyDict d) output_var) ex
           = (ex, Some (UnresolvedValueError key value method_name)))
   \<and> (refs_ok_items (format w) (variables ex) before \<and> \<not> has_placeholder_items before
       \<and> refs_ok (format w) (variables ex) v \<and> has_placeholder v \<longrightarrow>
       (\<exists>p. resolve_variables (format w) (PyDict (before @ (k, v) # after)) (variables ex)
              = Inl (UnresolvedValueError k (Placeholder p) [])
          \<and> dispatch w (APICall method_name (PyDict (before @ (k, v) # after)) output_var) ex
              = (ex, Some (UnresolvedValueError k (Placeholder p) method_name))))"
proof (intro conjI impI)
  assume "has_placeholder v"
  then show "\<exists>e. resolve_variables (format w) v (variables ex) = Inl e"
    by (rule resolve_fails_on_placeholder(1))
next
  assume a: "resolve_variables (format w) (PyDict d) (variables ex)
         = Inl (UnresolvedValueError key value m)"
  then show "key \<in> fst ` set d"
    by (auto split: sum.splits dest: resolve_items_error_key)
  from a show "dispatch w (APICall method_name (PyDict d) output_var) ex
           = (ex, Some (UnresolvedValueError key value method_name))"
    by (simp add: dispatch_apicall executor_resolve_variables_def)
next
  assume a: "refs_ok_items (format w) (variables ex) before \<and> \<not> has_placeholder_items before
       \<and> refs_ok (format w) (variables ex) v \<and> has_placeholder v"
  then obtain final' where f: "resolve_items (format w) (before @ (k, v) # after) (variables ex) []
      = resolve_items (format w) ((k, v) # after) (variables ex) final'"
    using resolve_items_prefix [of "format w" "variables ex" before "(k, v) # after" "[]"]
    by auto
  from a obtain k' p where
    "resolve_variables (format w) v (variables ex) = Inl (UnresolvedValueError k' (Placeholder p) [])"
    using resolve_unresolved(1) [of "format w" "variables ex" v] by auto
  with f have r: "resolve_variables (format w) (PyDict (before @ (k, v) # after)) (variables ex)
              = Inl (UnresolvedValueError k (Placeholder p) [])"
    by simp
  then have "dispatch w (APICall method_name (PyDict (before @ (k, v) # after)) output_var) ex
              = (ex, Some (UnresolvedValueError k (Placeholder p) method_name))"
    by (simp add: dispatch_apicall executor_resolve_variables_def del: resolve_variables.simps)
  with r show "\<exists>p. resolve_variables (format w) (PyDict (before @ (k, v) # after)) (variables ex)
              = Inl (UnresolvedValueError k (Placeholder p) [])
          \<and> dispatch w (APICall method_name (PyDict (before @ (k, v) # after)) output_var) ex
              = (ex, Some (UnresolvedValueError k (Placeholder p) method_name))"
    by blast
qed

text \<open>
  As stated, for every value with a placeholder, the claim fails: an entry before the
  placeholder that does not resolve raises its own error first.
\<close>

theorem placeholder_error_names_top_level_key_counterexample:
  "has_placeholder (PyDict [(''role'', Variable ''role_arn''), (''zip'', Placeholder ''BUILD_STAGE'')])
   \<and> resolve_variables format_fields
        (PyDict [(''role'', Variable ''role_arn''), (''zip'', Placeholder ''BUILD_STAGE'')])
        Map.empty
      = Inl (KeyError (PyStr ''role_arn''))"
  by (simp add: lookup_var_def)

theorem placeholder_error_names_top_level_key_witness:
  "\<forall>w ex. resolve_variables (format w)
       (PyDict [(''FunctionName'', PyStr ''app''),
                (''Code'', PyDict [(''ZipFile'', PyList [Placeholder ''BUILD_STAGE''])])])
       (variables (ex :: unit executor))
     = Inl (UnresolvedValueError ''Code'' (Placeholder ''BUILD_STAGE'') [])
   \<and> dispatch w (APICall ''create_function''
       (PyDict [(''FunctionName'', PyStr ''app''),
                (''Code'', PyDict [(''ZipFile'', PyList [Placeholder ''BUILD_STAGE''])])])
       None) ex
     = (ex, Some (UnresolvedValueError ''Code'' (Placeholder ''BUILD_STAGE'') ''create_function''))"
proof (intro allI)
  fix w :: "unit world" and ex :: "unit executor"
  show "resolve_variables (format w)
       (PyDict [(''FunctionName'', PyStr ''app''),
                (''Code'', PyDict [(''ZipFile'', PyList [Placeholder ''BUILD_STAGE''])])])
       (variables (ex :: unit executor))
     = Inl (UnresolvedValueError ''Code'' (Placeholder ''BUILD_STAGE'') [])
   \<and> dispatch w (APICall ''create_function''
       (PyDict [(''FunctionName'', PyStr ''app''),
                (''Code'', PyDict [(''ZipFile'', PyList [Placeholder ''BUILD_STAGE''])])])
       None) ex
     = (ex, Some (UnresolvedValueError ''Code'' (Placeholder ''BUILD_STAGE'') ''create_function''))"
    using placeholder_error_names_top_level_key [of
        "PyDict [(''ZipFile'', PyList [Placeholder ''BUILD_STAGE''])]" w ex
        "[(''FunctionName'', PyStr ''app''),
          (''Code'', PyDict [(''ZipFile'', PyList [Placeholder ''BUILD_STAGE''])])]"
        "''Code''" "Placeholder ''BUILD_STAGE''" "[]" "''create_function''" None
        "[(''FunctionName'', PyStr ''app'')]" "''Code''" "[]"]
    by simp
qed

subsection \<open>Resolution as substitution\<close>

lemma dict_set_fresh:
  "k \<notin> fst ` set d \<Longrightarrow> dict_set d k v = d @ [(k, v)]"
  by (induction d) auto

lemma resolve_substitute:
  "distinct_keys v \<Longrightarrow> refs_ok fmt vars v \<Longrightarrow> \<not> has_placeholder v \<Longrightarrow>
     resolve_variables fmt v vars = Inr (substitute fmt vars v)"
  "distinct (map fst final @ map fst d) \<Longrightarrow> distinct_keys_items d \<Longrightarrow>
   refs_ok_items fmt vars d \<Longrightarrow> \<not> has_placeholder_items d \<Longrightarrow>
     resolve_items fmt d vars final = Inr (final @ substitute_items fmt vars d)"
  "distinct_keys_elems xs \<Longrightarrow> refs_ok_elems fmt vars xs \<Longrightarrow> \<not> has_placeholder_elems xs \<Longrightarrow>
     resolve_elems fmt xs vars final_list = Inr (final_list @ substitute_elems fmt vars xs)"
proof (induction fmt v vars and fmt d vars final and fmt xs vars final_list
      rule: resolve_variables_resolve_items_resolve_elems.induct)
  case (12 fmt k v d vars final)
  then have r: "resolve_variables fmt v vars = Inr (substitute fmt vars v)" by simp
  from 12(3) have "k \<notin> fst ` set final" by auto
  then have s: "dict_set final k (substitute fmt vars v) = final @ [(k, substitute fmt vars v)]"
    by (rule dict_set_fresh)
  from 12(3) have "distinct (map fst (final @ [(k, substitute fmt vars v)]) @ map fst d)"
    by auto
  with 12(2) [OF r] s 12(4,5,6) r show ?case by simp
qed (auto simp: lookup_var_def format_kwargs_template list_all_iff split: sum.splits)


lemma substitute_shape:
  "map fst (substitute_items fmt vars d) = map fst d"
  "length (substitute_elems fmt vars xs) = length xs"
  by (induction d, auto) (induction xs, auto)

text \<open>
  Claim C3, as the code has it. For a value without placeholder whose \<open>Variable\<close>s are
  bound in the store and whose \<open>StringFormat\<close>s have their names bound and format,
  resolution returns the container \<open>substitute\<close> describes: the same keys in the same
  order, the same number of elements in the same order, each \<open>Variable(name)\<close> replaced
  by the store's value for \<open>name\<close>, each \<open>StringFormat\<close> by the string that
  \<open>str.format\<close> makes of its template with the store's values of its names as keyword
  arguments, every other leaf unchanged.
\<close>

theorem resolve_substitutes_references:
  "(distinct_keys v \<and> refs_ok fmt vars v \<and> \<not> has_placeholder v \<longrightarrow>
      resolve_variables fmt v vars = Inr (substitute fmt vars v))
   \<and> map fst (substitute_items fmt vars d) = map fst d
   \<and> length (substitute_elems fmt vars xs) = length xs
   \<and> (vars name = Some x \<longrightarrow> substitute fmt vars (Variable name) = x)
   \<and> (fmt template (template_kwargs vars names) = Inr formatted \<longrightarrow>
        substitute fmt vars (StringFormat template names) = PyStr formatted)
   \<and> (plain v \<longrightarrow> substitute fmt vars v = v)"
proof -
  have "plain v \<Longrightarrow> substitute fmt vars v = v"
    and "plain_items d' \<Longrightarrow> substitute_items fmt vars d' = d'"
    and "plain_elems xs' \<Longrightarrow> substitute_elems fmt vars xs' = xs'" for d' xs'
    by (induction v and d' and xs' rule: plain_plain_items_plain_elems.induct) auto
  then show ?thesis
    by (simp add: resolve_substitute(1) substitute_shape)
qed

text \<open>
  As stated, for every value whose \<open>Variable\<close>s are bound, the claim fails: with a
  placeholder among the leaves, resolution returns nothing.
\<close>

theorem resolve_substitutes_references_counterexample:
  "refs_ok format_fields [''x'' \<mapsto> PyInt 1]
     (PyDict [(''a'', Variable ''x''), (''b'', PyList [Placeholder ''BUILD_STAGE''])])
   \<and> resolve_variables format_fields
       (PyDict [(''a'', Variable ''x''), (''b'', PyList [Placeholder ''BUILD_STAGE''])])
       [''x'' \<mapsto> PyInt 1]
     = Inl (UnresolvedValueError ''b'' (Placeholder ''BUILD_STAGE'') [])"
  by (simp add: lookup_var_def)

theorem resolve_substitutes_references_witness:
  "resolve_variables format_fields
     (PyDict [(''name'', Variable ''n''),
              (''tags'', PyList [Variable ''t'', PyInt 3, StringFormat ''{n}-x'' [''n'']])])
     [''n'' \<mapsto> PyStr ''app'', ''t'' \<mapsto> PyDict [(''k'', PyNone)]]
   = Inr (PyDict [(''name'', PyStr ''app''),
                  (''tags'', PyList [PyDict [(''k'', PyNone)], PyInt 3, PyStr ''app-x''])])"
  using resolve_substitutes_references [of
      "PyDict [(''name'', Variable ''n''),
              (''tags'', PyList [Variable ''t'', PyInt 3, StringFormat ''{n}-x'' [''n'']])]"
      format_fields "[''n'' \<mapsto> PyStr ''app'', ''t'' \<mapsto> PyDict [(''k'', PyNone)]]"
      "[]" "[]" "''n''" "PyStr ''app''"]
  by (simp add: lookup_var_def format_fields_def)

lemma plain_is_resolved:
  "plain v \<Longrightarrow> refs_ok fmt vars v \<and> \<not> has_placeholder v \<and> substitute fmt vars v = v"
  "plain_items d \<Longrightarrow>
     refs_ok_items fmt vars d \<and> \<not> has_placeholder_items d \<and> substitute_items fmt vars d = d"
  "plain_elems xs \<Longrightarrow>
     refs_ok_elems fmt vars xs \<and> \<not> has_placeholder_elems xs \<and> substitute_elems fmt vars xs = xs"
  by (induction v and d and xs rule: plain_plain_items_plain_elems.induct) auto

lemma resolve_plain:
  "plain v \<Longrightarrow> distinct_keys v \<Longrightarrow> resolve_variables fmt v vars = Inr v"
  using resolve_substitute(1) [of v fmt vars] plain_is_resolved(1) [of v fmt vars] by simp

lemma dict_set_keys:
  "set (map fst (dict_set d k v)) = insert k (set (map fst d))"
proof (induction d)
  case Nil
  show ?case by simp
next
  case (Cons kv d)
  obtain k' v' where "kv = (k', v')" by (cases kv)
  with Cons show ?case by (cases "k' = k") (simp_all add: insert_commute)
qed

lemma dict_set_distinct:
  "distinct (map fst d) \<Longrightarrow> distinct (map fst (dict_set d k v))"
proof (induction d)
  case Nil
  show ?case by simp
next
  case (Cons kv d)
  obtain k' v' where "kv = (k', v')" by (cases kv)
  with Cons dict_set_keys [of d k v] show ?case by (cases "k' = k") simp_all
qed

lemma dict_set_plain:
  "plain_items d \<Longrightarrow> plain v \<Longrightarrow> plain_items (dict_set d k v)"
  by (induction d) auto

lemma dict_set_distinct_keys:
  "distinct_keys_items d \<Longrightarrow> distinct_keys v \<Longrightarrow> distinct_keys_items (dict_set d k v)"
  by (induction d) auto

lemma plain_elems_append:
  "plain_elems (xs @ ys) = (plain_elems xs \<and> plain_elems ys)"
  "distinct_keys_elems (xs @ ys) = (distinct_keys_elems xs \<and> distinct_keys_elems ys)"
  by (induction xs) auto

lemma resolve_result_plain:
  assumes store: "\<forall>n x. vars n = Some x \<longrightarrow> plain x \<and> distinct_keys x"
  shows "resolve_variables fmt v vars = Inr r \<Longrightarrow> plain r \<and> distinct_keys r"
    and "resolve_items fmt d vars final = Inr rd \<Longrightarrow>
         plain_items final \<Longrightarrow> distinct_keys_items final \<Longrightarrow> distinct (map fst final) \<Longrightarrow>
         plain_items rd \<and> distinct_keys_items rd \<and> distinct (map fst rd)"
    and "resolve_elems fmt xs vars final_list = Inr rl \<Longrightarrow>
         plain_elems final_list \<Longrightarrow> distinct_keys_elems final_list \<Longrightarrow>
         plain_elems rl \<and> distinct_keys_elems rl"
  using store
proof (induction fmt v vars and fmt d vars final and fmt xs vars final_list
      arbitrary: r and rd and rl
      rule: resolve_variables_resolve_items_resolve_elems.induct)
  case (1 fmt name vars)
  then show ?case by (auto simp: lookup_var_def split: option.splits)
next
  case (4 fmt d vars)
  then show ?case by (fastforce split: sum.splits)
next
  case (5 fmt xs vars)
  then show ?case by (fastforce split: sum.splits)
next
  case (12 fmt k v d vars final)
  from 12(3) obtain x where x: "resolve_variables fmt v vars = Inr x"
    and rest: "resolve_items fmt d vars (dict_set final k x) = Inr rd"
    by (auto split: sum.splits)
  from 12(1) [OF x 12(7)] have px: "plain x \<and> distinct_keys x" .
  show ?case
    using 12(2) [OF x rest _ _ _ 12(7)] px 12(4,5,6)
    by (simp add: dict_set_plain dict_set_distinct_keys dict_set_distinct)
next
  case (14 fmt v xs vars final_list)
  from 14(3) obtain x where x: "resolve_variables fmt v vars = Inr x"
    and rest: "resolve_elems fmt xs vars (final_list @ [x]) = Inr rl"
    by (auto split: sum.splits)
  from 14(1) [OF x 14(6)] have px: "plain x \<and> distinct_keys x" .
  show ?case
    using 14(2) [OF x rest _ _ 14(6)] px 14(4,5)
    by (simp add: plain_elems_append)
qed (auto split: sum.splits)

subsection \<open>Resolving twice\<close>

text \<open>
  Claim C7, as the code has it. When the values of the store are made of scalars, lists
  and dictionaries only (no \<open>Variable\<close>, \<open>StringFormat\<close> or \<open>Placeholder\<close>), and
  resolving \<open>v\<close> returns \<open>r\<close>, resolving \<open>r\<close> against the same store returns \<open>r\<close>.
\<close>

theorem resolve_idempotent:
  assumes "\<forall>n x. vars n = Some x \<longrightarrow> plain x \<and> distinct_keys x"
    and "resolve_variables fmt v vars = Inr r"
  shows "resolve_variables fmt r vars = Inr r"
  using resolve_result_plain(1) [OF assms] by (simp add: resolve_plain)

text \<open>
  As stated, for every store, the claim fails: a value taken from the store is not
  resolved, so a \<open>Variable\<close> held by the store is resolved by the second run only.
\<close>

theorem resolve_idempotent_counterexample:
  "resolve_variables format_fields (Variable ''a'') [''a'' \<mapsto> Variable ''b'', ''b'' \<mapsto> PyInt 1]
     = Inr (Variable ''b'')
   \<and> resolve_variables format_fields (Variable ''b'')
       [''a'' \<mapsto> Variable ''b'', ''b'' \<mapsto> PyInt 1]
     = Inr (PyInt 1)
   \<and> resolve_variables format_fields (Variable ''b'')
       [''a'' \<mapsto> Variable ''b'', ''b'' \<mapsto> PyInt 1]
     \<noteq> Inr (Variable ''b'')"
  by (simp add: lookup_var_def)

theorem resolve_idempotent_witness:
  "resolve_variables format_fields
     (PyDict [(''name'', Variable ''n''), (''tags'', PyList [StringFormat ''{n}-x'' [''n'']])])
     [''n'' \<mapsto> PyStr ''app'']
   = Inr (PyDict [(''name'', PyStr ''app''), (''tags'', PyList [PyStr ''app-x''])])
   \<and> resolve_variables format_fields
     (PyDict [(''name'', PyStr ''app''), (''tags'', PyList [PyStr ''app-x''])])
     [''n'' \<mapsto> PyStr ''app'']
   = Inr (PyDict [(''name'', PyStr ''app''), (''tags'', PyList [PyStr ''app-x''])])"
proof -
  have s: "\<forall>n x. [''n'' \<mapsto> PyStr ''app''] n = Some x \<longrightarrow> plain x \<and> distinct_keys x"
    by (simp split: if_splits)
  have r: "resolve_variables format_fields
     (PyDict [(''name'', Variable ''n''), (''tags'', PyList [StringFormat ''{n}-x'' [''n'']])])
     [''n'' \<mapsto> PyStr ''app'']
   = Inr (PyDict [(''name'', PyStr ''app''), (''tags'', PyList [PyStr ''app-x''])])"
    by (simp add: lookup_var_def format_fields_def)
  from resolve_idempotent [OF s r] r show ?thesis by simp
qed

subsection \<open>Resource records\<close>

lemma first_seen_snoc:
  "first_seen (xs @ [x]) = (if x \<in> set xs then first_seen xs else first_seen xs @ [x])"
  by (simp add: first_seen_def)

lemma first_seen_set [simp]: "set (first_seen xs) = set xs"
  by (simp add: first_seen_def)

lemma first_seen_distinct [simp]: "distinct (first_seen xs)"
  by (simp add: first_seen_def)

lemma first_seen_Nil [simp]: "first_seen [] = []"
  by (simp add: first_seen_def)

lemma merged_record_snoc:
  "ps \<noteq> [] \<Longrightarrow> merged_record (ps @ [p]) = dict_update (merged_record ps) p"
  by (cases ps) auto

lemma expected_records_new:
  assumes "record_name i \<notin> set (map record_name done)"
  shows "expected_records vars (done @ [i]) = expected_records vars done @ [record_payload vars i]"
proof -
  have "filter (\<lambda>j. record_name j = record_name i) done = []"
    using assms by (auto simp: filter_empty_conv intro: rev_image_eqI)
  moreover have "map (\<lambda>n. merged_record (map (record_payload vars)
        (filter (\<lambda>j. record_name j = n) (done @ [i])))) (first_seen (map record_name done))
      = map (\<lambda>n. merged_record (map (record_payload vars)
        (filter (\<lambda>j. record_name j = n) done))) (first_seen (map record_name done))"
    using assms by (intro map_cong) (auto intro: rev_image_eqI)
  ultimately show ?thesis
    using assms by (simp add: expected_records_def first_seen_snoc)
qed

lemma expected_records_old:
  assumes "a < length (first_seen (map record_name done))"
    and "first_seen (map record_name done) ! a = record_name i"
  shows "expected_records vars (done @ [i]) =
         (expected_records vars done)
           [a := dict_update (expected_records vars done ! a) (record_payload vars i)]"
proof (rule nth_equalityI)
  have mem: "record_name i \<in> set (map record_name done)"
    using assms nth_mem [of a "first_seen (map record_name done)"] by simp
  then have fs: "first_seen (map record_name (done @ [i])) = first_seen (map record_name done)"
    by (simp add: first_seen_snoc)
  show "length (expected_records vars (done @ [i])) =
        length ((expected_records vars done)
           [a := dict_update (expected_records vars done ! a) (record_payload vars i)])"
    using fs by (simp add: expected_records_def)
  fix j assume "j < length (expected_records vars (done @ [i]))"
  then have j: "j < length (first_seen (map record_name done))"
    using fs by (simp add: expected_records_def)
  show "expected_records vars (done @ [i]) ! j =
        (expected_records vars done)
           [a := dict_update (expected_records vars done ! a) (record_payload vars i)] ! j"
  proof (cases "j = a")
    case True
    from mem have "filter (\<lambda>k. record_name k = record_name i) done \<noteq> []"
      by (auto simp: filter_empty_conv intro: sym)
    then show ?thesis
      using True j fs assms
      by (simp add: expected_records_def merged_record_snoc)
  next
    case False
    then have "first_seen (map record_name done) ! j \<noteq> record_name i"
      using j assms nth_eq_iff_index_eq [of "first_seen (map record_name done)" j a]
      by auto
    then show ?thesis
      using False j fs by (simp add: expected_records_def)
  qed
qed

lemma payload_name:
  "recordable vars i \<Longrightarrow>
   dict_get (record_payload vars i) ''name'' = Some (PyStr (record_name i))"
  by (cases i) (auto simp: make_payload_def)

lemma dispatch_record:
  "recordable (variables ex) i \<Longrightarrow>
   dispatch w i ex = add_to_deployed_values (record_payload (variables ex) i) ex"
  by (cases i) (auto simp: dispatch_def lower_simps lookup_var_def)

lemma records_inv_ui [simp]:
  "records_inv vars (ui_write m ex) done = records_inv vars ex done"
  by (simp add: records_inv_def ui_write_def)

lemma record_step:
  assumes inv: "records_inv vars ex done" and ok: "recordable vars i"
  shows "\<exists>ex'. dispatch w i ex = (ex', None) \<and> records_inv vars ex' (done @ [i])"
proof -
  let ?fs = "first_seen (map record_name done)"
  let ?p = "record_payload vars i"
  from inv have v: "variables ex = vars"
    and obj: "objects ex = expected_records vars done"
    and rv: "resource_values ex = [0..<length (objects ex)]"
    and idx: "\<forall>j < length ?fs. map_of (resource_value_index ex) (PyStr (?fs ! j)) = Some j"
    and none: "\<forall>n. n \<notin> set (map record_name done) \<longrightarrow>
                 map_of (resource_value_index ex) (PyStr n) = None"
    by (simp_all add: records_inv_def)
  have len: "length (objects ex) = length ?fs"
    by (simp add: obj expected_records_def)
  have d: "dispatch w i ex = add_to_deployed_values ?p ex"
    using dispatch_record [of ex i w] ok v by simp
  show ?thesis
  proof (cases "record_name i \<in> set (map record_name done)")
    case False
    with none have n: "map_of (resource_value_index ex) (PyStr (record_name i)) = None"
      by blast
    let ?ex' = "ex\<lparr>objects := objects ex @ [?p],
                    resource_value_index :=
                      resource_value_index ex @ [(PyStr (record_name i), length (objects ex))],
                    resource_values := resource_values ex @ [length (objects ex)]\<rparr>"
    have r: "dispatch w i ex = (?ex', None)"
      using d n payload_name [OF ok] by (simp add: add_to_deployed_values_def)
    have fs': "first_seen (map record_name (done @ [i])) = ?fs @ [record_name i]"
      using False by (simp add: first_seen_snoc)
    have "records_inv vars ?ex' (done @ [i])"
      unfolding records_inv_def
    proof (intro conjI allI impI)
      show "variables ?ex' = vars" using v by simp
      show "objects ?ex' = expected_records vars (done @ [i])"
        using expected_records_new [OF False, of vars] obj by simp
      show "resource_values ?ex' = [0..<length (objects ?ex')]"
        using rv by simp
    next
      fix j assume "j < length (first_seen (map record_name (done @ [i])))"
      then have j: "j < length ?fs \<or> j = length ?fs" using fs' by auto
      show "map_of (resource_value_index ?ex')
              (PyStr (first_seen (map record_name (done @ [i])) ! j)) = Some j"
        using j
      proof
        assume "j < length ?fs"
        with idx fs' show ?thesis by (simp add: nth_append map_add_def)
      next
        assume "j = length ?fs"
        with n fs' len show ?thesis by (simp add: nth_append map_add_def)
      qed
    next
      fix n assume "n \<notin> set (map record_name (done @ [i]))"
      with none show "map_of (resource_value_index ?ex') (PyStr n) = None"
        by (auto simp: map_add_def)
    qed
    with r show ?thesis by blast
  next
    case True
    then have "record_name i \<in> set ?fs" by simp
    then obtain a where a: "a < length ?fs" "?fs ! a = record_name i"
      by (metis in_set_conv_nth)
    with idx have m: "map_of (resource_value_index ex) (PyStr (record_name i)) = Some a"
      by auto
    let ?ex' = "ex\<lparr>objects := (objects ex)[a := dict_update (objects ex ! a) ?p]\<rparr>"
    have r: "dispatch w i ex = (?ex', None)"
      using d m payload_name [OF ok] by (simp add: add_to_deployed_values_def)
    have fs': "first_seen (map record_name (done @ [i])) = ?fs"
      using True by (simp add: first_seen_snoc)
    have "records_inv vars ?ex' (done @ [i])"
      unfolding records_inv_def
    proof (intro conjI allI impI)
      show "variables ?ex' = vars" using v by simp
      show "objects ?ex' = expected_records vars (done @ [i])"
        using expected_records_old [OF a, of vars] obj by simp
      show "resource_values ?ex' = [0..<length (objects ?ex')]"
        using rv by simp
    next
      fix j assume "j < length (first_seen (map record_name (done @ [i])))"
      with idx fs' show "map_of (resource_value_index ?ex')
              (PyStr (first_seen (map record_name (done @ [i])) ! j)) = Some j"
        by simp
    next
      fix n assume "n \<notin> set (map record_name (done @ [i]))"
      with none show "map_of (resource_value_index ?ex') (PyStr n) = None"
        by auto
    qed
    with r show ?thesis by blast
  qed
qed

lemma record_loop:
  "records_inv vars ex seen \<Longrightarrow> \<forall>x \<in> set plan. recordable vars (snd x) \<Longrightarrow>
   \<exists>ex'. execute_loop w msgs plan ex = (ex', None)
        \<and> records_inv vars ex' (seen @ map snd plan)"
proof (induction plan arbitrary: ex seen)
  case Nil
  then show ?case by simp
next
  case (Cons x plan)
  obtain ident i where x: "x = (ident, i)" by (cases x)
  let ?ex1 = "case msgs ident of None \<Rightarrow> ex | Some message \<Rightarrow> ui_write message ex"
  have "records_inv vars ?ex1 seen"
    using Cons.prems(1) by (simp split: option.splits)
  with record_step [of vars ?ex1 seen i w] Cons.prems(2) x
  obtain ex2 where s: "dispatch w i ?ex1 = (ex2, None)" "records_inv vars ex2 (seen @ [i])"
    by auto
  from Cons.IH [OF s(2)] Cons.prems(2)
  obtain ex' where "execute_loop w msgs plan ex2 = (ex', None)"
    "records_inv vars ex' ((seen @ [i]) @ map snd plan)"
    by auto
  with s x show ?case by (simp add: Let_def)
qed

lemma deployed_values_inv:
  "records_inv vars ex done \<Longrightarrow> deployed_values ex = expected_records vars done"
  by (simp add: records_inv_def deployed_values_def map_nth)

lemma dict_get_dict_set:
  "dict_get (dict_set d k v) k' = (if k' = k then Some v else dict_get d k')"
  by (induction d) auto

lemma dict_get_dict_update:
  "distinct (map fst e) \<Longrightarrow>
   dict_get (dict_update d e) k = (case dict_get e k of None \<Rightarrow> dict_get d k | Some v \<Rightarrow> Some v)"
proof (induction e arbitrary: d)
  case Nil
  show ?case by simp
next
  case (Cons kv e)
  obtain k' v' where kv: "kv = (k', v')" by (cases kv)
  have "dict_get e k' = None"
    using Cons.prems kv by (induction e) auto
  with Cons kv show ?case
    by (auto simp: dict_get_dict_set split: option.splits)
qed

text \<open>
  Claim C1, as the code has it. Starting from an executor without records, a plan of
  \<open>RecordResourceValue\<close> and \<open>RecordResourceVariable\<close> instructions whose attribute is
  never called \<open>name\<close> and whose variables are bound runs without an exception, and
  \<open>resource_values\<close> then holds one record for each distinct resource name, in the order
  in which the names were first recorded, each the merge in order of the payloads
  recorded under that name. Merging is \<open>dict.update\<close>: for each key the later write wins.
\<close>

theorem recorded_resources_merge:
  "(objects ex = [] \<and> resource_values ex = [] \<and> resource_value_index ex = []
      \<and> (\<forall>x \<in> set plan_instructions. recordable (variables ex) (snd x)) \<longrightarrow>
    snd (execute w \<lparr>instructions = plan_instructions, messages = msgs\<rparr> ex) = None
    \<and> deployed_values (fst (execute w \<lparr>instructions = plan_instructions, messages = msgs\<rparr> ex))
        = expected_records (variables ex) (map snd plan_instructions))
   \<and> (distinct (map fst e) \<longrightarrow>
       dict_get (dict_update d e) k
         = (case dict_get e k of None \<Rightarrow> dict_get d k | Some v \<Rightarrow> Some v))"
proof (intro conjI impI)
  assume a: "objects ex = [] \<and> resource_values ex = [] \<and> resource_value_index ex = []
      \<and> (\<forall>x \<in> set plan_instructions. recordable (variables ex) (snd x))"
  then have "records_inv (variables ex) ex []"
    by (simp add: records_inv_def expected_records_def)
  from record_loop [OF this, of plan_instructions w msgs] a
  obtain ex' where e: "execute_loop w msgs plan_instructions ex = (ex', None)"
    "records_inv (variables ex) ex' (map snd plan_instructions)"
    by auto
  then show "snd (execute w \<lparr>instructions = plan_instructions, messages = msgs\<rparr> ex) = None"
    by (simp add: execute_def)
  from e show "deployed_values
       (fst (execute w \<lparr>instructions = plan_instructions, messages = msgs\<rparr> ex))
        = expected_records (variables ex) (map snd plan_instructions)"
    by (simp add: execute_def deployed_values_inv)
next
  assume "distinct (map fst e)"
  then show "dict_get (dict_update d e) k
         = (case dict_get e k of None \<Rightarrow> dict_get d k | Some v \<Rightarrow> Some v)"
    by (rule dict_get_dict_update)
qed

text \<open>
  As stated, for every recording instruction, the claim fails: the attribute is written
  into the payload after \<open>name\<close>, so an attribute called \<open>name\<close> replaces the resource
  name. The record of resource \<open>f1\<close> is filed under \<open>f2\<close>, and what is recorded for
  resource \<open>f2\<close> is merged into it: two resource names, one record.
\<close>

theorem recorded_resources_merge_counterexample:
  "deployed_values (fst (do_recordresourcevalue
       (RecordResourceValue ''f2'' ''lambda_function'' ''arn'' (PyStr ''X''))
       (fst (do_recordresourcevalue
          (RecordResourceValue ''f1'' ''lambda_function'' ''name'' (PyStr ''f2''))
          (new_executor ())))))
   = [[(''name'', PyStr ''f2''), (''resource_type'', PyStr ''lambda_function''),
       (''arn'', PyStr ''X'')]]"
  by (simp add: add_to_deployed_values_def make_payload_def new_executor_def
      deployed_values_def)

theorem recorded_resources_merge_witness:
  "\<forall>w. snd (execute w
       \<lparr>instructions =
          [(1, RecordResourceValue ''f1'' ''lambda_function'' ''arn'' (PyStr ''X'')),
           (2, RecordResourceVariable ''f1'' ''lambda_function'' ''role'' ''v'')],
        messages = Map.empty\<rparr>
       ((new_executor ())\<lparr>variables := [''v'' \<mapsto> PyStr ''Y'']\<rparr>)) = None
   \<and> deployed_values (fst (execute w
       \<lparr>instructions =
          [(1, RecordResourceValue ''f1'' ''lambda_function'' ''arn'' (PyStr ''X'')),
           (2, RecordResourceVariable ''f1'' ''lambda_function'' ''role'' ''v'')],
        messages = Map.empty\<rparr>
       ((new_executor ())\<lparr>variables := [''v'' \<mapsto> PyStr ''Y'']\<rparr>)))
     = [[(''name'', PyStr ''f1''), (''resource_type'', PyStr ''lambda_function''),
         (''arn'', PyStr ''X''), (''role'', PyStr ''Y'')]]"
proof
  fix w :: "unit world"
  have e: "expected_records [''v'' \<mapsto> PyStr ''Y'']
       [RecordResourceValue ''f1'' ''lambda_function'' ''arn'' (PyStr ''X''),
        RecordResourceVariable ''f1'' ''lambda_function'' ''role'' ''v'']
     = [[(''name'', PyStr ''f1''), (''resource_type'', PyStr ''lambda_function''),
         (''arn'', PyStr ''X''), (''role'', PyStr ''Y'')]]"
    by (simp add: expected_records_def first_seen_def make_payload_def)
  show "snd (execute w
       \<lparr>instructions =
          [(1, RecordResourceValue ''f1'' ''lambda_function'' ''arn'' (PyStr ''X'')),
           (2, RecordResourceVariable ''f1'' ''lambda_function'' ''role'' ''v'')],
        messages = Map.empty\<rparr>
       ((new_executor ())\<lparr>variables := [''v'' \<mapsto> PyStr ''Y'']\<rparr>)) = None
   \<and> deployed_values (fst (execute w
       \<lparr>instructions =
          [(1, RecordResourceValue ''f1'' ''lambda_function'' ''arn'' (PyStr ''X'')),
           (2, RecordResourceVariable ''f1'' ''lambda_function'' ''role'' ''v'')],
        messages = Map.empty\<rparr>
       ((new_executor ())\<lparr>variables := [''v'' \<mapsto> PyStr ''Y'']\<rparr>)))
     = [[(''name'', PyStr ''f1''), (''resource_type'', PyStr ''lambda_function''),
         (''arn'', PyStr ''X''), (''role'', PyStr ''Y'')]]"
    using recorded_resources_merge [of
        "(new_executor ())\<lparr>variables := [''v'' \<mapsto> PyStr ''Y'']\<rparr>"
        "[(1, RecordResourceValue ''f1'' ''lambda_function'' ''arn'' (PyStr ''X'')),
          (2, RecordResourceVariable ''f1'' ''lambda_function'' ''role'' ''v'')]"
        w Map.empty "[]" "[]" "[]"]
    by (simp add: new_executor_def e)
qed

subsection \<open>Explain mode: the overflow pool\<close>

declare str_nat.simps [simp del]




















subsection \<open>Copying a variable\<close>

text \<open>
  Claim C5, as the code has it. When \<open>from_var\<close> is bound, \<open>CopyVariable\<close> succeeds and
  \<open>to_var\<close> then reads the value \<open>from_var\<close> had; the other variables are as before.
  On names and objects, \<open>to_var\<close> is bound to the very object of \<open>from_var\<close>: no
  object is made and the heap is unchanged. Binding \<open>from_var\<close> to another object
  afterwards leaves what \<open>to_var\<close> reads.
\<close>

theorem copyvariable_binds_same_object:
  "(variables ex from_var = Some v \<longrightarrow>
      dispatch w (CopyVariable from_var to_var) ex
        = (ex\<lparr>variables := (variables ex)(to_var \<mapsto> v)\<rparr>, None))
   \<and> (bindings rs from_var = Some a \<longrightarrow>
      do_copyvariable_ref from_var to_var rs = Inr (rs\<lparr>bindings := (bindings rs)(to_var \<mapsto> a)\<rparr>)
      \<and> bindings (rs\<lparr>bindings := (bindings rs)(to_var \<mapsto> a)\<rparr>) to_var
          = bindings (rs\<lparr>bindings := (bindings rs)(to_var \<mapsto> a)\<rparr>) from_var
      \<and> heap (rs\<lparr>bindings := (bindings rs)(to_var \<mapsto> a)\<rparr>) = heap rs
      \<and> read_var (rs\<lparr>bindings := (bindings rs)(to_var \<mapsto> a)\<rparr>)
          = (read_var rs)(to_var := read_var rs from_var))
   \<and> (to_var \<noteq> from_var \<longrightarrow>
      read_var (rs\<lparr>bindings := (bindings rs)(from_var \<mapsto> b)\<rparr>) to_var = read_var rs to_var)"
  by (auto simp: dispatch_copyvariable lookup_var_def do_copyvariable_ref_def read_var_def
      fun_eq_iff split: option.splits)

text \<open>
  As stated, without sharing, the claim fails: after the copy the two names share one
  object, and a key set in place through \<open>a\<close> is read through \<open>b\<close>, which no longer
  reads the value \<open>a\<close> had when it was copied.
\<close>

theorem copyvariable_binds_same_object_counterexample:
  "read_var \<lparr>bindings = [''a'' \<mapsto> 0], heap = [0 \<mapsto> PyDict []]\<rparr> ''a'' = Some (PyDict [])
   \<and> (case do_copyvariable_ref ''a'' ''b'' \<lparr>bindings = [''a'' \<mapsto> 0], heap = [0 \<mapsto> PyDict []]\<rparr> of
        Inl e \<Rightarrow> None
      | Inr rs1 \<Rightarrow>
          (case setitem_ref ''a'' ''k'' (PyInt 1) rs1 of
             Inl e \<Rightarrow> None
           | Inr rs2 \<Rightarrow> read_var rs2 ''b''))
     = Some (PyDict [(''k'', PyInt 1)])"
  by (simp add: do_copyvariable_ref_def setitem_ref_def read_var_def)

theorem copyvariable_binds_same_object_witness:
  "\<forall>w. dispatch w (CopyVariable ''arn'' ''copy'')
        ((new_executor ())\<lparr>variables := [''arn'' \<mapsto> PyStr ''X'']\<rparr>)
      = ((new_executor ())\<lparr>variables := [''arn'' \<mapsto> PyStr ''X'', ''copy'' \<mapsto> PyStr ''X'']\<rparr>, None)
   \<and> read_var \<lparr>bindings = [''arn'' \<mapsto> 0, ''copy'' \<mapsto> 0], heap = [0 \<mapsto> PyStr ''X'']\<rparr> ''copy''
      = Some (PyStr ''X'')
   \<and> do_copyvariable_ref ''arn'' ''copy'' \<lparr>bindings = [''arn'' \<mapsto> 0], heap = [0 \<mapsto> PyStr ''X'']\<rparr>
      = Inr \<lparr>bindings = [''arn'' \<mapsto> 0, ''copy'' \<mapsto> 0], heap = [0 \<mapsto> PyStr ''X'']\<rparr>
   \<and> read_var \<lparr>bindings = [''arn'' \<mapsto> 1, ''copy'' \<mapsto> 0],
                heap = [0 \<mapsto> PyStr ''X'', 1 \<mapsto> PyStr ''Z'']\<rparr> ''copy''
      = Some (PyStr ''X'')"
  using copyvariable_binds_same_object [of
      "(new_executor ())\<lparr>variables := [''arn'' \<mapsto> PyStr ''X'']\<rparr>" "''arn''" "PyStr ''X''" _
      "''copy''" "\<lparr>bindings = [''arn'' \<mapsto> 0], heap = [0 \<mapsto> PyStr ''X'']\<rparr>" 0 1]
  by (simp add: new_executor_def read_var_def)

end
